theory Spec2Isabelle
  imports Main "HOL-Library.Sublist"
begin

section \<open>The Financialadvisor module: pipeline orchestration and SMS delivery\<close>

text \<open>
  The module \<^verbatim>\<open>src/dagger/src/main/__init__.py\<close> has two functions,
  \<^verbatim>\<open>run_pipeline\<close> and \<^verbatim>\<open>send\<close>. Both are sequences of calls to collaborators
  reached through the Dagger client \<^verbatim>\<open>dag\<close> (other modules, a secret, a container that
  runs curl), with a little pure computation in between (\<^verbatim>\<open>json.loads\<close>, \<^verbatim>\<open>dict.get\<close>,
  \<^verbatim>\<open>urllib.parse.quote\<close>, a substring test, two f-strings).

  Python text is modelled by its UTF-8 byte sequence, an Isabelle \<open>string\<close>.
\<close>

subsection \<open>Exceptions and values\<close>

text \<open>
  An exception is its class name and the text \<^verbatim>\<open>str(e)\<close> gives. \<open>Exc\<close> is an instance of
  a subclass of \<^verbatim>\<open>Exception\<close>; \<open>BaseExc\<close> is an instance of a \<^verbatim>\<open>BaseException\<close> that is
  not an \<^verbatim>\<open>Exception\<close> (\<^verbatim>\<open>asyncio.CancelledError\<close>, \<^verbatim>\<open>KeyboardInterrupt\<close>, \<^verbatim>\<open>SystemExit\<close>,
  \<^verbatim>\<open>GeneratorExit\<close>), which an \<^verbatim>\<open>except Exception\<close> clause does not catch. The classes this
  module raises itself are \<^verbatim>\<open>ValueError\<close> and \<^verbatim>\<open>RuntimeError\<close>; the interpreter and the
  standard library add \<^verbatim>\<open>TypeError\<close>, \<^verbatim>\<open>AttributeError\<close> and \<^verbatim>\<open>UnboundLocalError\<close>; an
  awaited call may raise any exception of either kind.
\<close>

datatype exc =
    Exc (exc_class: string) (exc_str: string)
  | BaseExc (exc_class: string) (exc_str: string)

text \<open>\<^verbatim>\<open>isinstance(e, Exception)\<close>\<close>

fun is_Exception :: "exc \<Rightarrow> bool" where
  "is_Exception (Exc cls msg) = True"
| "is_Exception (BaseExc cls msg) = False"

definition ValueError :: "string \<Rightarrow> exc" where
  "ValueError m = Exc ''ValueError'' m"

definition RuntimeError :: "string \<Rightarrow> exc" where
  "RuntimeError m = Exc ''RuntimeError'' m"

definition TypeError :: "string \<Rightarrow> exc" where
  "TypeError m = Exc ''TypeError'' m"

definition AttributeError :: "string \<Rightarrow> exc" where
  "AttributeError m = Exc ''AttributeError'' m"

definition UnboundLocalError :: "string \<Rightarrow> exc" where
  "UnboundLocalError m = Exc ''UnboundLocalError'' m"

text \<open>The single quote character, which an Isabelle string literal cannot hold.\<close>

definition sq :: string where
  "sq = [CHR 0x27]"

text \<open>
  The values \<^verbatim>\<open>json.loads\<close> can return: \<^verbatim>\<open>None\<close>, a bool, an int, a float (kept as its
  lexeme: no operation of this module looks inside one), a str, a list, and a dict, given
  by its items.
\<close>

datatype json =
    JNone
  | JBool bool
  | JInt int
  | JFloat string
  | JStr string
  | JList "json list"
  | JDict "(string \<times> json) list"

text \<open>The name \<^verbatim>\<open>type(v).__name__\<close> that an \<^verbatim>\<open>AttributeError\<close> message shows.\<close>

fun type_name :: "json \<Rightarrow> string" where
  "type_name JNone = ''NoneType''"
| "type_name (JBool b) = ''bool''"
| "type_name (JInt n) = ''int''"
| "type_name (JFloat x) = ''float''"
| "type_name (JStr s) = ''str''"
| "type_name (JList xs) = ''list''"
| "type_name (JDict kvs) = ''dict''"

text \<open>
  \<^verbatim>\<open>v.get('advice')\<close>: on a dict, the value of the key or \<^verbatim>\<open>None\<close>; any other value
  of \<^verbatim>\<open>json.loads\<close> has no attribute \<^verbatim>\<open>get\<close>.
\<close>

fun get_advice_field :: "json \<Rightarrow> exc + json" where
  "get_advice_field (JDict kvs) =
     (case map_of kvs ''advice'' of None \<Rightarrow> Inr JNone | Some v \<Rightarrow> Inr v)"
| "get_advice_field v =
     Inl (AttributeError (sq @ type_name v @ sq @ '' object has no attribute '' @ sq @ ''get'' @ sq))"

subsection \<open>Percent-encoding: \<^verbatim>\<open>urllib.parse.quote\<close> and \<^verbatim>\<open>unquote_to_bytes\<close>\<close>

text \<open>
  The bytes never quoted (\<^verbatim>\<open>_ALWAYS_SAFE\<close>): ASCII letters, digits and \<^verbatim>\<open>_.-~\<close>.
  \<^verbatim>\<open>quote\<close> is called with its default \<^verbatim>\<open>safe='/'\<close>.
\<close>

definition always_safe :: string where
  "always_safe =
     ''ABCDEFGHIJKLMNOPQRSTUVWXYZ'' @ ''abcdefghijklmnopqrstuvwxyz'' @ ''0123456789'' @ ''_.-~''"

definition hexdig_upper :: string where
  "hexdig_upper = ''0123456789ABCDEF''"

text \<open>\<^verbatim>\<open>'%{:02X}'.format(b)\<close>\<close>

definition percent_hex :: "char \<Rightarrow> string" where
  "percent_hex c =
     [CHR ''%'', hexdig_upper ! (of_char c div 16), hexdig_upper ! (of_char c mod 16)]"

text \<open>The quoter of one byte: itself when safe, its escape otherwise.\<close>

definition quoter :: "string \<Rightarrow> char \<Rightarrow> string" where
  "quoter safe c = (if c \<in> set (always_safe @ safe) then [c] else percent_hex c)"

text \<open>\<^verbatim>\<open>bs.rstrip(chars)\<close>: drop the trailing bytes that are in \<^verbatim>\<open>chars\<close>.\<close>

definition rstrip :: "string \<Rightarrow> string \<Rightarrow> string" where
  "rstrip chars bs = rev (dropWhile (\<lambda>c. c \<in> set chars) (rev bs))"

text \<open>
  \<^verbatim>\<open>quote_from_bytes(bs, safe)\<close>: empty input gives the empty string, input of safe bytes
  only is returned as it is, anything else is quoted byte by byte.
\<close>

definition quote_from_bytes :: "string \<Rightarrow> string \<Rightarrow> string" where
  "quote_from_bytes bs safe =
     (if bs = [] then []
      else if rstrip (always_safe @ safe) bs = [] then bs
      else concat (map (quoter safe) bs))"

text \<open>
  \<^verbatim>\<open>quote(string)\<close> on a str: the empty string is returned at once, any other is
  encoded as UTF-8 (the identity on this model's strings) and quoted. A str that UTF-8
  cannot encode (one with a lone surrogate) has no byte sequence and is not a string of
  this model: on it \<^verbatim>\<open>quote\<close> raises \<^verbatim>\<open>UnicodeEncodeError\<close> and produces no message.
\<close>

definition quote_str :: "string \<Rightarrow> string" where
  "quote_str s = (if s = [] then s else quote_from_bytes s ''/'')"

text \<open>
  \<^verbatim>\<open>quote(v)\<close> on a value of \<^verbatim>\<open>json.loads\<close>: a value that is not a str is handed to
  \<^verbatim>\<open>quote_from_bytes\<close>, which raises \<^verbatim>\<open>TypeError\<close> on anything but bytes.
\<close>

fun quote :: "json \<Rightarrow> exc + string" where
  "quote (JStr s) = Inr (quote_str s)"
| "quote v = Inl (TypeError ''quote_from_bytes() expected bytes'')"

text \<open>\<^verbatim>\<open>_hextobyte\<close>: the byte of two hexadecimal digits of either case.\<close>

definition hex_value :: "char \<Rightarrow> nat option" where
  "hex_value c =
     map_of (zip ''0123456789ABCDEFabcdef''
               [0, 1, 2, 3, 4, 5, 6, 7, 8, 9, 10, 11, 12, 13, 14, 15, 10, 11, 12, 13, 14, 15]) c"

fun hextobyte :: "string \<Rightarrow> char option" where
  "hextobyte [a, b] =
     (case hex_value a of
        None \<Rightarrow> None
      | Some x \<Rightarrow> (case hex_value b of None \<Rightarrow> None | Some y \<Rightarrow> Some (char_of (16 * x + y))))"
| "hextobyte s = None"

text \<open>\<^verbatim>\<open>string.split(sep)\<close> for a separator of one byte.\<close>

fun split_on :: "char \<Rightarrow> string \<Rightarrow> string list" where
  "split_on sep [] = [[]]"
| "split_on sep (c # cs) =
     (if c = sep then [] # split_on sep cs
      else (case split_on sep cs of [] \<Rightarrow> [[c]] | b # bs \<Rightarrow> (c # b) # bs))"

text \<open>
  One item after a \<^verbatim>\<open>%\<close>: its first two bytes are replaced by the byte they spell, and
  when they spell none (\<^verbatim>\<open>KeyError\<close>) the \<^verbatim>\<open>%\<close> is put back.
\<close>

definition unquote_item :: "string \<Rightarrow> string" where
  "unquote_item item =
     (case hextobyte (take 2 item) of
        Some b \<Rightarrow> b # drop 2 item
      | None \<Rightarrow> CHR ''%'' # item)"

definition unquote_to_bytes :: "string \<Rightarrow> string" where
  "unquote_to_bytes s =
     (if s = [] then []
      else (case split_on CHR ''%'' s of
              [] \<Rightarrow> s
            | [b] \<Rightarrow> s
            | b # bits \<Rightarrow> b @ concat (map unquote_item bits)))"

subsection \<open>The collaborators\<close>

text \<open>A \<^verbatim>\<open>Secret\<close> is an opaque handle; only \<^verbatim>\<open>plaintext()\<close> reads it.\<close>

datatype secret = Secret string

text \<open>
  Every awaited call of the module, with the arguments the module passes:
  \<^item> \<^verbatim>\<open>dag.fetch_spreadsheet_data().fetch_data(apiKey, sheet)\<close>
  \<^item> \<^verbatim>\<open>dag.filter_for_new_transactions().filter(json_resp, connection, database, collection)\<close>
  \<^item> \<^verbatim>\<open>dag.categorize_expenses().categorize(new_transactions, hftoken)\<close>
  \<^item> \<^verbatim>\<open>dag.write_to_mongo().write(categorized_transactions, connection, database, collection)\<close>
  \<^item> \<^verbatim>\<open>dag.get_from_mongo().get_data(connection, database, collection)\<close>
  \<^item> \<^verbatim>\<open>dag.get_advice().generate(get_data, openai, connection)\<close>
  \<^item> \<^verbatim>\<open>textBelt.plaintext()\<close>
  \<^item> \<^verbatim>\<open>dag.container().from_(image).with_exec(args).stdout()\<close>
\<close>

datatype call =
    FetchData secret secret
  | FilterNew string secret string string
  | Categorize string secret
  | WriteToMongo string secret string string
  | GetFromMongo secret string string
  | GetAdvice string secret secret
  | Plaintext secret
  | WithExec string "string list"

text \<open>
  The world outside the module answers a call with a string or raises; its answer may
  depend on every call made before (a database remembers what was written). The state a
  run threads is the history of calls made so far, oldest first.
\<close>

type_synonym world = "call list \<Rightarrow> call \<Rightarrow> exc + string"

type_synonym 'a io = "call list \<Rightarrow> (exc + 'a) \<times> call list"

definition perform :: "world \<Rightarrow> call \<Rightarrow> string io" where
  "perform env c h = (env h c, h @ [c])"

subsection \<open>\<^verbatim>\<open>send\<close>\<close>

text \<open>\<^verbatim>\<open>"success" in result\<close>: the first string occurs in the second.\<close>

fun py_in :: "string \<Rightarrow> string \<Rightarrow> bool" where
  "py_in sub [] = (sub = [])"
| "py_in sub (c # cs) = (prefix sub (c # cs) \<or> py_in sub cs)"

definition phone_numbers :: "string list" where
  "phone_numbers = [''15162341744'', ''15512259418'']"

definition curl_cmd :: "string \<Rightarrow> string \<Rightarrow> string \<Rightarrow> string" where
  "curl_cmd phone_number encoded_message text_belt_key =
     ''curl -X POST https://textbelt.com/text --data-urlencode phone='' @ sq @ phone_number @ sq
     @ '' --data-urlencode message='' @ sq @ encoded_message @ sq
     @ '' -d key='' @ sq @ text_belt_key @ sq"

definition curl_call :: "string \<Rightarrow> string \<Rightarrow> string \<Rightarrow> call" where
  "curl_call encoded_message text_belt_key phone_number =
     WithExec ''curlimages/curl:latest''
       [''sh'', ''-c'', curl_cmd phone_number encoded_message text_belt_key]"

text \<open>
  The body of the loop, a \<^verbatim>\<open>try\<close> with its \<^verbatim>\<open>except Exception\<close>: an \<^verbatim>\<open>Exception\<close> raised
  inside, by the container or by the test on its output, is raised again as a
  \<^verbatim>\<open>RuntimeError\<close>; an exception of the container that is not an \<^verbatim>\<open>Exception\<close> is not
  caught and goes on as it is. Either way the loop and the function are left.
\<close>

definition attempt :: "world \<Rightarrow> string \<Rightarrow> string \<Rightarrow> string \<Rightarrow> string io" where
  "attempt env encoded_message text_belt_key phone_number h =
     (case perform env (curl_call encoded_message text_belt_key phone_number) h of
        (Inl e, h') \<Rightarrow>
          if is_Exception e
          then (Inl (RuntimeError (''Error sending message to '' @ phone_number @ '': '' @ exc_str e)), h')
          else (Inl e, h')
      | (Inr result, h') \<Rightarrow>
          if \<not> py_in ''success'' result
          then (Inl (RuntimeError (''Error sending message to '' @ phone_number @ '': ''
                  @ exc_str (ValueError (''Failed to send message to '' @ phone_number @ '': '' @ result)))), h')
          else (Inr result, h'))"

text \<open>
  The \<^verbatim>\<open>for\<close> loop and the \<^verbatim>\<open>return result\<close> after it. \<^verbatim>\<open>result\<close> is unbound until an
  iteration has assigned it.
\<close>

fun send_loop :: "world \<Rightarrow> string \<Rightarrow> string \<Rightarrow> string list \<Rightarrow> string option \<Rightarrow> string io" where
  "send_loop env encoded_message text_belt_key [] result h =
     (case result of
        None \<Rightarrow> (Inl (UnboundLocalError ''cannot access local variable 'result' where it is not associated with a value''), h)
      | Some r \<Rightarrow> (Inr r, h))"
| "send_loop env encoded_message text_belt_key (phone_number # rest) result h =
     (case attempt env encoded_message text_belt_key phone_number h of
        (Inl e, h') \<Rightarrow> (Inl e, h')
      | (Inr r, h') \<Rightarrow> send_loop env encoded_message text_belt_key rest (Some r) h')"

text \<open>The body of \<^verbatim>\<open>send\<close> for a list of numbers, and \<^verbatim>\<open>send\<close> with the list it has.\<close>

definition send_to :: "string list \<Rightarrow> world \<Rightarrow> string \<Rightarrow> secret \<Rightarrow> string io" where
  "send_to numbers env encoded_message textBelt h =
     (case perform env (Plaintext textBelt) h of
        (Inl e, h') \<Rightarrow> (Inl e, h')
      | (Inr text_belt_key, h') \<Rightarrow> send_loop env encoded_message text_belt_key numbers None h')"

definition send :: "world \<Rightarrow> string \<Rightarrow> secret \<Rightarrow> string io" where
  "send env encoded_message textBelt = send_to phone_numbers env encoded_message textBelt"

subsection \<open>\<^verbatim>\<open>run_pipeline\<close>\<close>

text \<open>
  \<^verbatim>\<open>json.loads\<close> is a parameter: a function from the text to the value it denotes, or to
  the \<^verbatim>\<open>JSONDecodeError\<close> it raises.
\<close>

definition encode_advice :: "(string \<Rightarrow> exc + json) \<Rightarrow> string \<Rightarrow> exc + string" where
  "encode_advice loads generate_resp =
     (case loads generate_resp of
        Inl e \<Rightarrow> Inl e
      | Inr v \<Rightarrow>
          (case get_advice_field v of
             Inl e \<Rightarrow> Inl e
           | Inr resp_dict \<Rightarrow> quote resp_dict))"

definition run_pipeline ::
  "world \<Rightarrow> (string \<Rightarrow> exc + json) \<Rightarrow> secret \<Rightarrow> secret \<Rightarrow> secret \<Rightarrow> secret \<Rightarrow> secret \<Rightarrow> secret
     \<Rightarrow> string \<Rightarrow> string \<Rightarrow> string io" where
  "run_pipeline env loads apiKey sheet connection hftoken openai textBelt database collection h =
     (case perform env (FetchData apiKey sheet) h of
        (Inl e, h1) \<Rightarrow> (Inl e, h1)
      | (Inr json_resp, h1) \<Rightarrow>
     (case perform env (FilterNew json_resp connection database collection) h1 of
        (Inl e, h2) \<Rightarrow> (Inl e, h2)
      | (Inr new_transactions, h2) \<Rightarrow>
     (case perform env (Categorize new_transactions hftoken) h2 of
        (Inl e, h3) \<Rightarrow> (Inl e, h3)
      | (Inr categorized_transactions, h3) \<Rightarrow>
     (case perform env (WriteToMongo categorized_transactions connection database collection) h3 of
        (Inl e, h4) \<Rightarrow> (Inl e, h4)
      | (Inr write_to_mongo, h4) \<Rightarrow>
     (case perform env (GetFromMongo connection database collection) h4 of
        (Inl e, h5) \<Rightarrow> (Inl e, h5)
      | (Inr get_data, h5) \<Rightarrow>
     (case perform env (GetAdvice get_data openai connection) h5 of
        (Inl e, h6) \<Rightarrow> (Inl e, h6)
      | (Inr generate_resp, h6) \<Rightarrow>
     (case encode_advice loads generate_resp of
        Inl e \<Rightarrow> (Inl e, h6)
      | Inr encoded_message \<Rightarrow> send env encoded_message textBelt h6)))))))"

subsection \<open>Observations on a run\<close>

text \<open>
  How one delivery attempt is classified, from the answer the world gives to its call: the
  attempt fails when the container raises or when its output lacks the marker.
\<close>

definition attempt_failed :: "world \<Rightarrow> call list \<Rightarrow> call \<Rightarrow> bool" where
  "attempt_failed env h c =
     (case env h c of Inl e \<Rightarrow> True | Inr result \<Rightarrow> \<not> py_in ''success'' result)"

text \<open>
  The error a failed attempt leaves \<^verbatim>\<open>send\<close> with, from the world's answer \<open>a\<close> to the
  attempt's call: the \<^verbatim>\<open>RuntimeError\<close> around an \<^verbatim>\<open>Exception\<close> of the container or around
  the \<^verbatim>\<open>ValueError\<close> for an output without the marker, and the container's exception
  itself when it is not an \<^verbatim>\<open>Exception\<close>.
\<close>

definition raised_for :: "string \<Rightarrow> exc + string \<Rightarrow> exc" where
  "raised_for phone_number a =
     (case a of
        Inl e \<Rightarrow>
          if is_Exception e
          then RuntimeError (''Error sending message to '' @ phone_number @ '': '' @ exc_str e)
          else e
      | Inr result \<Rightarrow>
          RuntimeError (''Error sending message to '' @ phone_number @ '': ''
            @ ''Failed to send message to '' @ phone_number @ '': '' @ result))"

definition attempt_error :: "world \<Rightarrow> call list \<Rightarrow> string \<Rightarrow> string \<Rightarrow> string \<Rightarrow> exc" where
  "attempt_error env h encoded_message text_belt_key phone_number =
     raised_for phone_number (env h (curl_call encoded_message text_belt_key phone_number))"

text \<open>
  The history in which \<^verbatim>\<open>send\<close>, started in \<open>h\<close>, makes its attempt number \<open>i\<close> (from
  0): the secret has been read and the attempts before have been made. The attempt
  \<open>fails_at\<close> \<open>i\<close> when the world's answer there is classified as a failure, and \<open>k\<close> is
  the \<open>first_failure\<close> when no attempt before it fails.
\<close>

definition history_before ::
  "call list \<Rightarrow> secret \<Rightarrow> string \<Rightarrow> string \<Rightarrow> string list \<Rightarrow> nat \<Rightarrow> call list" where
  "history_before h textBelt encoded_message text_belt_key numbers i =
     h @ Plaintext textBelt # map (curl_call encoded_message text_belt_key) (take i numbers)"

definition fails_at ::
  "world \<Rightarrow> call list \<Rightarrow> secret \<Rightarrow> string \<Rightarrow> string \<Rightarrow> string list \<Rightarrow> nat \<Rightarrow> bool" where
  "fails_at env h textBelt encoded_message text_belt_key numbers i =
     attempt_failed env (history_before h textBelt encoded_message text_belt_key numbers i)
       (curl_call encoded_message text_belt_key (numbers ! i))"

definition first_failure ::
  "world \<Rightarrow> call list \<Rightarrow> secret \<Rightarrow> string \<Rightarrow> string \<Rightarrow> string list \<Rightarrow> nat \<Rightarrow> bool" where
  "first_failure env h textBelt encoded_message text_belt_key numbers k =
     (k < length numbers
      \<and> (\<forall>i \<in> set [0..<k]. \<not> fails_at env h textBelt encoded_message text_belt_key numbers i)
      \<and> fails_at env h textBelt encoded_message text_belt_key numbers k)"

text \<open>The delivery attempts among the calls made since the history \<open>h\<close>.\<close>

fun is_attempt :: "call \<Rightarrow> bool" where
  "is_attempt (WithExec img args) = True"
| "is_attempt c = False"

definition attempts_made :: "call list \<Rightarrow> call list \<Rightarrow> call list" where
  "attempts_made h h' = filter is_attempt (drop (length h) h')"

text \<open>The calls that ask for advice.\<close>

fun is_get_advice :: "call \<Rightarrow> bool" where
  "is_get_advice (GetAdvice history key ref) = True"
| "is_get_advice c = False"

text \<open>What \<^verbatim>\<open>unquote_to_bytes\<close> joins, on the pieces between the \<^verbatim>\<open>%\<close>.\<close>

definition join_unquoted :: "string list \<Rightarrow> string" where
  "join_unquoted bits = hd bits @ concat (map unquote_item (tl bits))"

subsection \<open>Sample worlds\<close>

text \<open>The double quote character.\<close>

definition dq :: string where
  "dq = [CHR 0x22]"

text \<open>A world without memory in which every collaborator answers.\<close>

fun happy :: "call \<Rightarrow> exc + string" where
  "happy (FetchData key sheet) = Inr ''rows''"
| "happy (FilterNew rows conn db coll) = Inr ''new rows''"
| "happy (Categorize rows token) = Inr ''categorized rows''"
| "happy (WriteToMongo rows conn db coll) = Inr ''inserted''"
| "happy (GetFromMongo conn db coll) = Inr ''history''"
| "happy (GetAdvice history key conn) = Inr ''envelope''"
| "happy (Plaintext s) = Inr ''key''"
| "happy (WithExec img args) = Inr (''{'' @ dq @ ''success'' @ dq @ '': true}'')"

definition happy_world :: world where
  "happy_world h c = happy c"

text \<open>
  A world with memory: the first delivery attempt of the history is answered by \<open>a\<close>,
  every other call as in the world above.
\<close>

definition first_attempt_answers :: "exc + string \<Rightarrow> world" where
  "first_attempt_answers a h c =
     (if is_attempt c \<and> filter is_attempt h = [] then a else happy c)"


text \<open>The world in which every collaborator answers and the write is acknowledged by \<open>ack\<close>.\<close>

definition ack_world :: "string \<Rightarrow> world" where
  "ack_world ack h c =
     (case c of WriteToMongo rows conn db coll \<Rightarrow> Inr ack | _ \<Rightarrow> happy c)"

text \<open>The world in which the spreadsheet cannot be fetched.\<close>

definition no_sheet_world :: world where
  "no_sheet_world h c =
     (case c of FetchData key sheet \<Rightarrow> Inl (Exc ''FetchError'' ''spreadsheet not reachable'')
      | _ \<Rightarrow> happy c)"



text \<open>
  A world whose database is an append-only ledger: a read returns everything the history
  has written, in order.
\<close>

fun written :: "call list \<Rightarrow> string" where
  "written [] = []"
| "written (WriteToMongo rows conn db coll # h) = rows @ written h"
| "written (c # h) = written h"

definition ledger_world :: world where
  "ledger_world h c =
     (case c of GetFromMongo conn db coll \<Rightarrow> Inr (written h) | _ \<Rightarrow> happy c)"

text \<open>A \<^verbatim>\<open>json.loads\<close> that reads every text as the value \<open>v\<close>.\<close>

definition parsed_as :: "json \<Rightarrow> string \<Rightarrow> exc + json" where
  "parsed_as v s = Inr v"

text \<open>
  The run of the \<^verbatim>\<open>__main__\<close> block: the secrets are named after the environment
  variables they are read from.
\<close>

definition main_run :: "world \<Rightarrow> (string \<Rightarrow> exc + json) \<Rightarrow> (exc + string) \<times> call list" where
  "main_run env loads =
     run_pipeline env loads (Secret ''API_KEY'') (Secret ''SHEET_ID'') (Secret ''DB_CONNECTION'')
       (Secret ''HF_TOKEN'') (Secret ''OPENAI_KEY'') (Secret ''TEXTBELT_KEY'')
       ''DATABASE'' ''COLLECTION'' []"

section \<open>Properties\<close>

lemma py_in_iff: "py_in sub s \<longleftrightarrow> (\<exists>pre post. s = pre @ sub @ post)"
proof (induction s)
  case Nil
  then show ?case by auto
next
  case (Cons c cs)
  show ?case
  proof
    assume "py_in sub (c # cs)"
    then consider "prefix sub (c # cs)" | "py_in sub cs" by auto
    then show "\<exists>pre post. c # cs = pre @ sub @ post"
    proof cases
      case 1
      then obtain post where "c # cs = sub @ post" by (auto simp: prefix_def)
      then have "c # cs = [] @ sub @ post" by simp
      then show ?thesis by blast
    next
      case 2
      with Cons.IH obtain pre post where "cs = pre @ sub @ post" by blast
      then have "c # cs = (c # pre) @ sub @ post" by simp
      then show ?thesis by blast
    qed
  next
    assume "\<exists>pre post. c # cs = pre @ sub @ post"
    then obtain pre post where eq: "c # cs = pre @ sub @ post" by blast
    show "py_in sub (c # cs)"
    proof (cases pre)
      case Nil
      with eq have "prefix sub (c # cs)" by (simp add: prefix_def)
      then show ?thesis by simp
    next
      case (Cons p pre')
      with eq have "cs = pre' @ sub @ post" by simp
      with Cons.IH have "py_in sub cs" by blast
      then show ?thesis by simp
    qed
  qed
qed

subsection \<open>Percent-encoding\<close>

lemma below_16:
  "n < 16 \<Longrightarrow> n \<in> {0, 1, 2, 3, 4, 5, 6, 7, 8, 9, 10, 11, 12, 13, 14, 15::nat}"
  by (simp, arith)

lemma hex_value_hexdig: "n < 16 \<Longrightarrow> hex_value (hexdig_upper ! n) = Some n"
  by (drule below_16, elim insertE emptyE) (simp_all add: hex_value_def hexdig_upper_def)

lemma hexdig_not_percent: "n < 16 \<Longrightarrow> hexdig_upper ! n \<noteq> CHR ''%''"
  by (drule below_16, elim insertE emptyE) (simp_all add: hexdig_upper_def)

lemma hextobyte_hex:
  "hextobyte [hexdig_upper ! (of_char c div 16), hexdig_upper ! (of_char c mod 16)] = Some c"
proof -
  have "(of_char c :: nat) < 256" by simp
  then have "(of_char c :: nat) div 16 < 16" by arith
  moreover have "(of_char c :: nat) mod 16 < 16" by simp
  ultimately show ?thesis by (simp add: hex_value_hexdig)
qed

lemma split_on_not_Nil: "split_on sep s \<noteq> []"
  by (induction s) (auto split: list.splits)

lemma split_on_single: "split_on sep s = [b] \<Longrightarrow> b = s"
  by (induction s arbitrary: b) (auto split: list.splits if_splits simp: split_on_not_Nil)

lemma unquote_to_bytes_bits: "unquote_to_bytes s = join_unquoted (split_on CHR ''%'' s)"
  by (cases s)
    (auto simp: unquote_to_bytes_def join_unquoted_def split_on_not_Nil
      split: list.splits dest: split_on_single)

lemma rstrip_Nil_iff: "rstrip chars bs = [] \<longleftrightarrow> set bs \<subseteq> set chars"
  by (auto simp: rstrip_def)

lemma concat_singletons: "concat (map (\<lambda>c. [c]) bs) = bs"
  by (induction bs) auto

lemma quote_from_bytes_eq: "quote_from_bytes bs safe = concat (map (quoter safe) bs)"
proof (cases "set bs \<subseteq> set (always_safe @ safe)")
  case True
  then have "map (quoter safe) bs = map (\<lambda>c. [c]) bs" by (auto simp: quoter_def)
  then have "concat (map (quoter safe) bs) = bs" by (simp only: concat_singletons)
  then show ?thesis using True by (simp add: quote_from_bytes_def rstrip_Nil_iff del: set_append)
next
  case False
  then have "bs \<noteq> []" by auto
  with False show ?thesis by (simp add: quote_from_bytes_def rstrip_Nil_iff del: set_append)
qed

lemma percent_unsafe: "CHR ''%'' \<notin> set (always_safe @ ''/'')"
  by (simp add: always_safe_def)

lemma join_quoter:
  "join_unquoted (split_on CHR ''%'' (quoter ''/'' c @ rest)) =
     c # join_unquoted (split_on CHR ''%'' rest)"
proof (cases "c \<in> set (always_safe @ ''/'')")
  case True
  then have "c \<noteq> CHR ''%''" using percent_unsafe by metis
  with True show ?thesis
    by (auto simp: quoter_def join_unquoted_def split_on_not_Nil split: list.splits
        simp del: set_append)
next
  case False
  obtain b bs where sp: "split_on CHR ''%'' rest = b # bs"
    using split_on_not_Nil by (cases "split_on CHR ''%'' rest") auto
  have "(of_char c :: nat) < 256" by simp
  then have d: "(of_char c :: nat) div 16 < 16" by arith
  have m: "(of_char c :: nat) mod 16 < 16" by simp
  from False show ?thesis
    using hexdig_not_percent[OF d] hexdig_not_percent[OF m]
    by (simp add: quoter_def percent_hex_def join_unquoted_def sp unquote_item_def hextobyte_hex
          del: set_append hextobyte.simps)
qed

lemma join_quoted: "join_unquoted (split_on CHR ''%'' (concat (map (quoter ''/'') s))) = s"
  by (induction s) (simp_all add: join_quoter, simp add: join_unquoted_def)

lemma unquote_quote_str: "unquote_to_bytes (quote_str s) = s"
  by (simp add: quote_str_def unquote_to_bytes_bits quote_from_bytes_eq join_quoted,
      simp add: join_unquoted_def)

subsection \<open>One delivery attempt and the loop over the numbers\<close>

lemma attempt_ok:
  "\<not> attempt_failed env h (curl_call m key p) \<Longrightarrow>
   \<exists>out. env h (curl_call m key p) = Inr out \<and>
     attempt env m key p h = (Inr out, h @ [curl_call m key p])"
  by (auto simp: attempt_failed_def attempt_def perform_def split: sum.splits)

lemma attempt_fail:
  "attempt_failed env h (curl_call m key p) \<Longrightarrow>
   attempt env m key p h = (Inl (attempt_error env h m key p), h @ [curl_call m key p])"
  by (auto simp: attempt_failed_def attempt_def perform_def attempt_error_def raised_for_def
      ValueError_def split: sum.splits)

lemma send_loop_first_failure:
  "k < length ps \<Longrightarrow>
   \<forall>i<k. \<not> attempt_failed env (h @ map (curl_call m key) (take i ps)) (curl_call m key (ps ! i)) \<Longrightarrow>
   attempt_failed env (h @ map (curl_call m key) (take k ps)) (curl_call m key (ps ! k)) \<Longrightarrow>
   send_loop env m key ps res h =
     (Inl (attempt_error env (h @ map (curl_call m key) (take k ps)) m key (ps ! k)),
      h @ map (curl_call m key) (take (Suc k) ps))"
proof (induction ps arbitrary: k h res)
  case Nil
  then show ?case by simp
next
  case (Cons p ps)
  show ?case
  proof (cases k)
    case 0
    with Cons.prems show ?thesis by (simp add: attempt_fail)
  next
    case (Suc k')
    from Cons.prems(2) Suc have "\<not> attempt_failed env h (curl_call m key p)"
      by (auto dest: spec[of _ 0])
    from attempt_ok[OF this] obtain out where
      a: "attempt env m key p h = (Inr out, h @ [curl_call m key p])" by blast
    have k': "k' < length ps" using Cons.prems(1) Suc by simp
    have ok: "\<forall>i<k'. \<not> attempt_failed env
                 ((h @ [curl_call m key p]) @ map (curl_call m key) (take i ps))
                 (curl_call m key (ps ! i))"
    proof (intro allI impI)
      fix i assume "i < k'"
      then have "Suc i < k" using Suc by simp
      with Cons.prems(2)
      show "\<not> attempt_failed env ((h @ [curl_call m key p]) @ map (curl_call m key) (take i ps))
                 (curl_call m key (ps ! i))"
        by (auto dest: spec[of _ "Suc i"])
    qed
    have bad: "attempt_failed env ((h @ [curl_call m key p]) @ map (curl_call m key) (take k' ps))
                 (curl_call m key (ps ! k'))"
      using Cons.prems(3) Suc by simp
    show ?thesis
      using Cons.IH[OF k' ok bad, of "Some out"] a Suc by simp
  qed
qed

lemma send_loop_no_failure:
  "\<forall>i<length ps. \<not> attempt_failed env (h @ map (curl_call m key) (take i ps))
       (curl_call m key (ps ! i)) \<Longrightarrow>
   ps \<noteq> [] \<Longrightarrow>
   \<exists>out. env (h @ map (curl_call m key) (butlast ps)) (curl_call m key (last ps)) = Inr out \<and>
     send_loop env m key ps res h = (Inr out, h @ map (curl_call m key) ps)"
proof (induction ps arbitrary: h res)
  case Nil
  then show ?case by simp
next
  case (Cons p ps)
  note prems = Cons.prems and IH = Cons.IH
  from prems(1) have "\<not> attempt_failed env h (curl_call m key p)"
    by (auto dest: spec[of _ 0])
  from attempt_ok[OF this] obtain out where
    e: "env h (curl_call m key p) = Inr out" and
    a: "attempt env m key p h = (Inr out, h @ [curl_call m key p])" by blast
  show ?case
  proof (cases "ps = []")
    case True
    with a e show ?thesis by simp
  next
    case False
    have ok: "\<forall>i<length ps. \<not> attempt_failed env
                 ((h @ [curl_call m key p]) @ map (curl_call m key) (take i ps))
                 (curl_call m key (ps ! i))"
    proof (intro allI impI)
      fix i assume "i < length ps"
      then have "Suc i < length (p # ps)" by simp
      with prems(1)
      show "\<not> attempt_failed env ((h @ [curl_call m key p]) @ map (curl_call m key) (take i ps))
                 (curl_call m key (ps ! i))"
        by (auto dest: spec[of _ "Suc i"])
    qed
    from IH[OF ok False, of "Some out"] show ?thesis using a False by simp
  qed
qed

lemma send_to_first_failure:
  assumes "env h (Plaintext t) = Inr key" and "k < length ps"
    and "\<forall>i<k. \<not> attempt_failed env (h @ Plaintext t # map (curl_call m key) (take i ps))
                  (curl_call m key (ps ! i))"
    and "attempt_failed env (h @ Plaintext t # map (curl_call m key) (take k ps))
                  (curl_call m key (ps ! k))"
  shows "send_to ps env m t h =
     (Inl (attempt_error env (h @ Plaintext t # map (curl_call m key) (take k ps)) m key (ps ! k)),
      h @ Plaintext t # map (curl_call m key) (take (Suc k) ps))"
  using assms send_loop_first_failure[of k ps env "h @ [Plaintext t]" m key None]
  by (simp add: send_to_def perform_def)

lemma send_to_no_failure:
  assumes "env h (Plaintext t) = Inr key" and "ps \<noteq> []"
    and "\<forall>i<length ps. \<not> attempt_failed env (h @ Plaintext t # map (curl_call m key) (take i ps))
                  (curl_call m key (ps ! i))"
  shows "\<exists>out. env (h @ Plaintext t # map (curl_call m key) (butlast ps))
                 (curl_call m key (last ps)) = Inr out \<and>
     send_to ps env m t h = (Inr out, h @ Plaintext t # map (curl_call m key) ps)"
  using assms send_loop_no_failure[of ps env "h @ [Plaintext t]" m key None]
  by (simp add: send_to_def perform_def)


lemma first_failure_send_to:
  assumes key: "env h (Plaintext t) = Inr key"
      and ff: "first_failure env h t m key ps k"
  shows "send_to ps env m t h =
     (Inl (attempt_error env (history_before h t m key ps k) m key (ps ! k)),
      history_before h t m key ps (Suc k))"
  using send_to_first_failure[where env=env and h=h and t=t and key=key and k=k and ps=ps and m=m]
    key ff
  by (simp add: first_failure_def fails_at_def history_before_def)

lemma no_failure_send_to:
  assumes key: "env h (Plaintext t) = Inr key" and ne: "ps \<noteq> []"
      and none: "\<forall>i<length ps. \<not> fails_at env h t m key ps i"
  shows "\<exists>out. env (history_before h t m key ps (length ps - 1)) (curl_call m key (last ps)) = Inr out \<and>
           send_to ps env m t h = (Inr out, history_before h t m key ps (length ps))"
  using send_to_no_failure[where env=env and h=h and t=t and key=key and ps=ps and m=m]
    key ne none
  by (simp add: fails_at_def history_before_def butlast_conv_take)

lemma some_failure_first_failure:
  assumes "i < length ps" and "fails_at env h t m key ps i"
  shows "\<exists>k. first_failure env h t m key ps k"
proof -
  have "\<exists>n. fails_at env h t m key ps n" using assms by blast
  then obtain k where k: "fails_at env h t m key ps k"
      and least: "\<forall>j<k. \<not> fails_at env h t m key ps j"
    using exists_least_iff[of "\<lambda>n. fails_at env h t m key ps n"] by blast
  have "k \<le> i" using least assms(2) by (meson not_le)
  then have "k < length ps" using assms(1) by simp
  with k least show ?thesis by (auto simp: first_failure_def)
qed


lemma is_attempt_curl_call [simp]: "is_attempt (curl_call m key p)"
  by (simp add: curl_call_def)

lemma curl_call_not_Plaintext [simp]: "curl_call m key p \<noteq> Plaintext s"
  by (simp add: curl_call_def)

lemma happy_curl_call:
  "happy (curl_call m key p) = Inr (''{'' @ dq @ ''success'' @ dq @ '': true}'')"
  by (simp add: curl_call_def)

lemma marker_in_happy: "py_in ''success'' (''{'' @ dq @ ''success'' @ dq @ '': true}'')"
  by (simp add: dq_def)

lemma happy_fails_at: "\<not> fails_at happy_world h t m key ps i"
  by (simp only: fails_at_def attempt_failed_def happy_world_def happy_curl_call marker_in_happy
      sum.case not_not)

lemma send_Inr:
  assumes "send env m t h = (Inr r, h')"
  shows "\<exists>key. env h (Plaintext t) = Inr key \<and>
           h' = h @ [Plaintext t, curl_call m key ''15162341744'', curl_call m key ''15512259418''] \<and>
           env (h @ [Plaintext t, curl_call m key ''15162341744''])
             (curl_call m key ''15512259418'') = Inr r"
  using assms
  by (auto simp: send_def send_to_def phone_numbers_def perform_def attempt_def
      split: sum.splits if_splits)

lemma happy_send:
  "send happy_world m (Secret ''TEXTBELT_KEY'') h =
     (Inr (''{'' @ dq @ ''success'' @ dq @ '': true}''),
      h @ [Plaintext (Secret ''TEXTBELT_KEY''), curl_call m ''key'' ''15162341744'',
           curl_call m ''key'' ''15512259418''])"
  by (simp add: send_def send_to_def phone_numbers_def perform_def attempt_def happy_world_def
      happy_curl_call dq_def)

lemma happy_main_run:
  "main_run happy_world (parsed_as (JDict [(''advice'', JStr ''Spend less'')])) =
     (Inr (''{'' @ dq @ ''success'' @ dq @ '': true}''),
      [FetchData (Secret ''API_KEY'') (Secret ''SHEET_ID''),
       FilterNew ''rows'' (Secret ''DB_CONNECTION'') ''DATABASE'' ''COLLECTION'',
       Categorize ''new rows'' (Secret ''HF_TOKEN''),
       WriteToMongo ''categorized rows'' (Secret ''DB_CONNECTION'') ''DATABASE'' ''COLLECTION'',
       GetFromMongo (Secret ''DB_CONNECTION'') ''DATABASE'' ''COLLECTION'',
       GetAdvice ''history'' (Secret ''OPENAI_KEY'') (Secret ''DB_CONNECTION''),
       Plaintext (Secret ''TEXTBELT_KEY''),
       curl_call ''Spend%20less'' ''key'' ''15162341744'',
       curl_call ''Spend%20less'' ''key'' ''15512259418''])"
proof -
  have q: "quote_str ''Spend less'' = ''Spend%20less''" by code_simp
  show ?thesis
    by (simp add: main_run_def run_pipeline_def perform_def happy_world_def encode_advice_def
        parsed_as_def q happy_send)
qed

subsection \<open>How far a run of the pipeline gets\<close>

lemma run_pipeline_cases:
  assumes "run_pipeline env loads a s c hf ok t d col h = (r, h')"
  obtains
    (fetch_fails) e where
      "env h (FetchData a s) = Inl e" "r = Inl e" "h' = h @ [FetchData a s]"
  | (filter_fails) j e where
      "env h (FetchData a s) = Inr j"
      "env (h @ [FetchData a s]) (FilterNew j c d col) = Inl e"
      "r = Inl e" "h' = h @ [FetchData a s, FilterNew j c d col]"
  | (categorize_fails) j n e where
      "env h (FetchData a s) = Inr j"
      "env (h @ [FetchData a s]) (FilterNew j c d col) = Inr n"
      "env (h @ [FetchData a s, FilterNew j c d col]) (Categorize n hf) = Inl e"
      "r = Inl e" "h' = h @ [FetchData a s, FilterNew j c d col, Categorize n hf]"
  | (write_fails) j n ct e where
      "env h (FetchData a s) = Inr j"
      "env (h @ [FetchData a s]) (FilterNew j c d col) = Inr n"
      "env (h @ [FetchData a s, FilterNew j c d col]) (Categorize n hf) = Inr ct"
      "env (h @ [FetchData a s, FilterNew j c d col, Categorize n hf]) (WriteToMongo ct c d col) = Inl e"
      "r = Inl e"
      "h' = h @ [FetchData a s, FilterNew j c d col, Categorize n hf, WriteToMongo ct c d col]"
  | (get_fails) j n ct w e where
      "env h (FetchData a s) = Inr j"
      "env (h @ [FetchData a s]) (FilterNew j c d col) = Inr n"
      "env (h @ [FetchData a s, FilterNew j c d col]) (Categorize n hf) = Inr ct"
      "env (h @ [FetchData a s, FilterNew j c d col, Categorize n hf]) (WriteToMongo ct c d col) = Inr w"
      "env (h @ [FetchData a s, FilterNew j c d col, Categorize n hf, WriteToMongo ct c d col])
         (GetFromMongo c d col) = Inl e"
      "r = Inl e"
      "h' = h @ [FetchData a s, FilterNew j c d col, Categorize n hf, WriteToMongo ct c d col,
                 GetFromMongo c d col]"
  | (generate_fails) j n ct w g e where
      "env h (FetchData a s) = Inr j"
      "env (h @ [FetchData a s]) (FilterNew j c d col) = Inr n"
      "env (h @ [FetchData a s, FilterNew j c d col]) (Categorize n hf) = Inr ct"
      "env (h @ [FetchData a s, FilterNew j c d col, Categorize n hf]) (WriteToMongo ct c d col) = Inr w"
      "env (h @ [FetchData a s, FilterNew j c d col, Categorize n hf, WriteToMongo ct c d col])
         (GetFromMongo c d col) = Inr g"
      "env (h @ [FetchData a s, FilterNew j c d col, Categorize n hf, WriteToMongo ct c d col,
                 GetFromMongo c d col]) (GetAdvice g ok c) = Inl e"
      "r = Inl e"
      "h' = h @ [FetchData a s, FilterNew j c d col, Categorize n hf, WriteToMongo ct c d col,
                 GetFromMongo c d col, GetAdvice g ok c]"
  | (encode_fails) j n ct w g resp e where
      "env h (FetchData a s) = Inr j"
      "env (h @ [FetchData a s]) (FilterNew j c d col) = Inr n"
      "env (h @ [FetchData a s, FilterNew j c d col]) (Categorize n hf) = Inr ct"
      "env (h @ [FetchData a s, FilterNew j c d col, Categorize n hf]) (WriteToMongo ct c d col) = Inr w"
      "env (h @ [FetchData a s, FilterNew j c d col, Categorize n hf, WriteToMongo ct c d col])
         (GetFromMongo c d col) = Inr g"
      "env (h @ [FetchData a s, FilterNew j c d col, Categorize n hf, WriteToMongo ct c d col,
                 GetFromMongo c d col]) (GetAdvice g ok c) = Inr resp"
      "encode_advice loads resp = Inl e"
      "r = Inl e"
      "h' = h @ [FetchData a s, FilterNew j c d col, Categorize n hf, WriteToMongo ct c d col,
                 GetFromMongo c d col, GetAdvice g ok c]"
  | (notifies) j n ct w g resp m where
      "env h (FetchData a s) = Inr j"
      "env (h @ [FetchData a s]) (FilterNew j c d col) = Inr n"
      "env (h @ [FetchData a s, FilterNew j c d col]) (Categorize n hf) = Inr ct"
      "env (h @ [FetchData a s, FilterNew j c d col, Categorize n hf]) (WriteToMongo ct c d col) = Inr w"
      "env (h @ [FetchData a s, FilterNew j c d col, Categorize n hf, WriteToMongo ct c d col])
         (GetFromMongo c d col) = Inr g"
      "env (h @ [FetchData a s, FilterNew j c d col, Categorize n hf, WriteToMongo ct c d col,
                 GetFromMongo c d col]) (GetAdvice g ok c) = Inr resp"
      "encode_advice loads resp = Inr m"
      "send env m t (h @ [FetchData a s, FilterNew j c d col, Categorize n hf, WriteToMongo ct c d col,
                 GetFromMongo c d col, GetAdvice g ok c]) = (r, h')"
proof (cases "env (h) (FetchData a s)")
  case (Inl e)
  from assms  Inl have "r = Inl e" and "h' = h @ [FetchData a s]"
    by (simp_all add: run_pipeline_def perform_def)
  with  Inl show ?thesis by (intro fetch_fails)
next
  case r1: (Inr j)
  show ?thesis
  proof (cases "env (h @ [FetchData a s]) (FilterNew j c d col)")
    case (Inl e)
    from assms r1 Inl have "r = Inl e" and "h' = h @ [FetchData a s, FilterNew j c d col]"
      by (simp_all add: run_pipeline_def perform_def)
    with r1 Inl show ?thesis by (intro filter_fails)
  next
    case r2: (Inr n)
    show ?thesis
    proof (cases "env (h @ [FetchData a s, FilterNew j c d col]) (Categorize n hf)")
      case (Inl e)
      from assms r1 r2 Inl have "r = Inl e" and "h' = h @ [FetchData a s, FilterNew j c d col, Categorize n hf]"
        by (simp_all add: run_pipeline_def perform_def)
      with r1 r2 Inl show ?thesis by (intro categorize_fails)
    next
      case r3: (Inr ct)
      show ?thesis
      proof (cases "env (h @ [FetchData a s, FilterNew j c d col, Categorize n hf]) (WriteToMongo ct c d col)")
        case (Inl e)
        from assms r1 r2 r3 Inl have "r = Inl e" and "h' = h @ [FetchData a s, FilterNew j c d col, Categorize n hf, WriteToMongo ct c d col]"
          by (simp_all add: run_pipeline_def perform_def)
        with r1 r2 r3 Inl show ?thesis by (intro write_fails)
      next
        case r4: (Inr w)
        show ?thesis
        proof (cases "env (h @ [FetchData a s, FilterNew j c d col, Categorize n hf, WriteToMongo ct c d col]) (GetFromMongo c d col)")
          case (Inl e)
          from assms r1 r2 r3 r4 Inl have "r = Inl e" and "h' = h @ [FetchData a s, FilterNew j c d col, Categorize n hf, WriteToMongo ct c d col, GetFromMongo c d col]"
            by (simp_all add: run_pipeline_def perform_def)
          with r1 r2 r3 r4 Inl show ?thesis by (intro get_fails)
        next
          case r5: (Inr g)
          show ?thesis
          proof (cases "env (h @ [FetchData a s, FilterNew j c d col, Categorize n hf, WriteToMongo ct c d col, GetFromMongo c d col]) (GetAdvice g ok c)")
            case (Inl e)
            from assms r1 r2 r3 r4 r5 Inl have "r = Inl e" and "h' = h @ [FetchData a s, FilterNew j c d col, Categorize n hf, WriteToMongo ct c d col, GetFromMongo c d col, GetAdvice g ok c]"
              by (simp_all add: run_pipeline_def perform_def)
            with r1 r2 r3 r4 r5 Inl show ?thesis by (intro generate_fails)
          next
            case r6: (Inr resp)
            show ?thesis
            proof (cases "encode_advice loads resp")
              case (Inl e)
              from assms r1 r2 r3 r4 r5 r6 Inl have "r = Inl e" and "h' = h @ [FetchData a s, FilterNew j c d col, Categorize n hf, WriteToMongo ct c d col, GetFromMongo c d col, GetAdvice g ok c]"
                by (simp_all add: run_pipeline_def perform_def)
              with r1 r2 r3 r4 r5 r6 Inl show ?thesis by (intro encode_fails)
            next
              case (Inr m)
              from assms r1 r2 r3 r4 r5 r6 Inr have "send env m t (h @ [FetchData a s, FilterNew j c d col, Categorize n hf, WriteToMongo ct c d col, GetFromMongo c d col, GetAdvice g ok c]) = (r, h')"
                by (simp add: run_pipeline_def perform_def)
              with r1 r2 r3 r4 r5 r6 Inr show ?thesis by (intro notifies)
            qed
          qed
        qed
      qed
    qed
  qed
qed

lemma ack_send:
  "send (ack_world ack) m (Secret ''TEXTBELT_KEY'') h =
     (Inr (''{'' @ dq @ ''success'' @ dq @ '': true}''),
      h @ [Plaintext (Secret ''TEXTBELT_KEY''), curl_call m ''key'' ''15162341744'',
           curl_call m ''key'' ''15512259418''])"
  by (simp add: send_def send_to_def phone_numbers_def perform_def attempt_def ack_world_def
      curl_call_def dq_def)

lemma ack_main_run:
  "main_run (ack_world ack) (parsed_as (JDict [(''advice'', JStr ''Spend less'')])) =
     (Inr (''{'' @ dq @ ''success'' @ dq @ '': true}''),
      [FetchData (Secret ''API_KEY'') (Secret ''SHEET_ID''),
       FilterNew ''rows'' (Secret ''DB_CONNECTION'') ''DATABASE'' ''COLLECTION'',
       Categorize ''new rows'' (Secret ''HF_TOKEN''),
       WriteToMongo ''categorized rows'' (Secret ''DB_CONNECTION'') ''DATABASE'' ''COLLECTION'',
       GetFromMongo (Secret ''DB_CONNECTION'') ''DATABASE'' ''COLLECTION'',
       GetAdvice ''history'' (Secret ''OPENAI_KEY'') (Secret ''DB_CONNECTION''),
       Plaintext (Secret ''TEXTBELT_KEY''),
       curl_call ''Spend%20less'' ''key'' ''15162341744'',
       curl_call ''Spend%20less'' ''key'' ''15512259418''])"
proof -
  have q: "quote_str ''Spend less'' = ''Spend%20less''" by code_simp
  show ?thesis
    by (simp add: main_run_def run_pipeline_def perform_def ack_world_def encode_advice_def
        parsed_as_def q ack_send)
qed

lemma no_sheet_main_run:
  "main_run no_sheet_world loads =
     (Inl (Exc ''FetchError'' ''spreadsheet not reachable''),
      [FetchData (Secret ''API_KEY'') (Secret ''SHEET_ID'')])"
  by (simp add: main_run_def run_pipeline_def perform_def no_sheet_world_def)

lemma send_no_get_advice:
  assumes "send env m t h = (r, h')"
  shows "\<exists>cs. h' = h @ cs \<and> filter is_get_advice cs = []"
  using assms
  by (auto simp: send_def send_to_def phone_numbers_def perform_def attempt_def curl_call_def
      split: sum.splits if_splits)

lemma written_append: "written (h1 @ h2) = written h1 @ written h2"
  by (induction h1 rule: written.induct) simp_all

lemma ledger_read_after_write:
  "ledger_world (hw @ [WriteToMongo rows conn db coll]) (GetFromMongo conn db coll) = Inr result
   \<Longrightarrow> py_in rows result"
proof -
  assume "ledger_world (hw @ [WriteToMongo rows conn db coll]) (GetFromMongo conn db coll) = Inr result"
  then have "result = written hw @ rows @ []"
    by (simp add: ledger_world_def written_append)
  then show ?thesis
    unfolding py_in_iff by blast
qed

lemma ledger_send:
  "send ledger_world m (Secret ''TEXTBELT_KEY'') h =
     (Inr (''{'' @ dq @ ''success'' @ dq @ '': true}''),
      h @ [Plaintext (Secret ''TEXTBELT_KEY''), curl_call m ''key'' ''15162341744'',
           curl_call m ''key'' ''15512259418''])"
  by (simp add: send_def send_to_def phone_numbers_def perform_def attempt_def ledger_world_def
      curl_call_def dq_def)

lemma send_attempts_fixed_numbers:
  "set (attempts_made h (snd (send env encoded_message textBelt h)))
     \<subseteq> {c. \<exists>text_belt_key. c = curl_call encoded_message text_belt_key ''15162341744''
                          \<or> c = curl_call encoded_message text_belt_key ''15512259418''}"
  by (auto simp: send_def send_to_def phone_numbers_def perform_def attempt_def attempts_made_def
      split: sum.splits if_splits)

lemma raised_for_simps:
  "raised_for p (Inl (Exc cls msg)) = RuntimeError (''Error sending message to '' @ p @ '': '' @ msg)"
  "raised_for p (Inl (BaseExc cls msg)) = BaseExc cls msg"
  "raised_for p (Inr result) =
     RuntimeError (''Error sending message to '' @ p @ '': ''
       @ ''Failed to send message to '' @ p @ '': '' @ result)"
  by (simp_all add: raised_for_def)



section \<open>The claims\<close>

subsection \<open>C1: the stages run in order and a failure ends the run\<close>

text \<open>
  C1, as amended. Every run of \<^verbatim>\<open>run_pipeline\<close> calls the stages in the order fetch, dedup
  filter, categorize, persist, retrieve-for-advice, generate-advice, notify. The filter
  receives what the fetch returned, the categorizer what the filter returned, the write
  what the categorizer returned, the generator what the read returned, and \<^verbatim>\<open>send\<close> the
  encoded advice of what the generator returned; the read receives only the connection,
  the database and the collection, and what the write returned is used nowhere. When a
  stage raises, or the decoding and encoding of the advice does, the run ends with that
  error and no later call is made: in particular no delivery is attempted. (The claim as
  written, every stage receiving the output of the stage before it, is refuted below.)
\<close>

theorem run_pipeline_stages_in_order:
  assumes "run_pipeline env loads apiKey sheet connection hftoken openai textBelt database collection h
             = (r, h')"
  shows
   "(let fetch_call = FetchData apiKey sheet in
     (\<exists>e. env h fetch_call = Inl e \<and> r = Inl e \<and> h' = h @ [fetch_call]) \<or>
     (\<exists>json_resp. env h fetch_call = Inr json_resp \<and>
     (let filter_call = FilterNew json_resp connection database collection;
          h1 = h @ [fetch_call] in
     (\<exists>e. env h1 filter_call = Inl e \<and> r = Inl e \<and> h' = h1 @ [filter_call]) \<or>
     (\<exists>new_transactions. env h1 filter_call = Inr new_transactions \<and>
     (let categorize_call = Categorize new_transactions hftoken;
          h2 = h1 @ [filter_call] in
     (\<exists>e. env h2 categorize_call = Inl e \<and> r = Inl e \<and> h' = h2 @ [categorize_call]) \<or>
     (\<exists>categorized_transactions. env h2 categorize_call = Inr categorized_transactions \<and>
     (let write_call = WriteToMongo categorized_transactions connection database collection;
          h3 = h2 @ [categorize_call] in
     (\<exists>e. env h3 write_call = Inl e \<and> r = Inl e \<and> h' = h3 @ [write_call]) \<or>
     (\<exists>write_to_mongo. env h3 write_call = Inr write_to_mongo \<and>
     (let get_call = GetFromMongo connection database collection;
          h4 = h3 @ [write_call] in
     (\<exists>e. env h4 get_call = Inl e \<and> r = Inl e \<and> h' = h4 @ [get_call]) \<or>
     (\<exists>get_data. env h4 get_call = Inr get_data \<and>
     (let generate_call = GetAdvice get_data openai connection;
          h5 = h4 @ [get_call] in
     (\<exists>e. env h5 generate_call = Inl e \<and> r = Inl e \<and> h' = h5 @ [generate_call]) \<or>
     (\<exists>generate_resp. env h5 generate_call = Inr generate_resp \<and>
     (let h6 = h5 @ [generate_call] in
     (\<exists>e. encode_advice loads generate_resp = Inl e \<and> r = Inl e \<and> h' = h6) \<or>
     (\<exists>encoded_message. encode_advice loads generate_resp = Inr encoded_message \<and>
        send env encoded_message textBelt h6 = (r, h')))))))))))))))"
  using assms
proof (cases rule: run_pipeline_cases)
  case (fetch_fails e)
  then show ?thesis by (simp add: Let_def)
next
  case (filter_fails j e)
  then show ?thesis by (simp add: Let_def)
next
  case (categorize_fails j n e)
  then show ?thesis by (simp add: Let_def)
next
  case (write_fails j n ct e)
  then show ?thesis by (simp add: Let_def)
next
  case (get_fails j n ct w e)
  then show ?thesis by (simp add: Let_def)
next
  case (generate_fails j n ct w g e)
  then show ?thesis by (simp add: Let_def)
next
  case (encode_fails j n ct w g resp e)
  then show ?thesis by (simp add: Let_def)
next
  case (notifies j n ct w g resp m)
  then show ?thesis by (simp add: Let_def)
qed
theorem run_pipeline_stages_in_order_witness:
  "main_run happy_world (parsed_as (JDict [(''advice'', JStr ''Spend less'')]))
     = send happy_world ''Spend%20less'' (Secret ''TEXTBELT_KEY'')
         [FetchData (Secret ''API_KEY'') (Secret ''SHEET_ID''),
          FilterNew ''rows'' (Secret ''DB_CONNECTION'') ''DATABASE'' ''COLLECTION'',
          Categorize ''new rows'' (Secret ''HF_TOKEN''),
          WriteToMongo ''categorized rows'' (Secret ''DB_CONNECTION'') ''DATABASE'' ''COLLECTION'',
          GetFromMongo (Secret ''DB_CONNECTION'') ''DATABASE'' ''COLLECTION'',
          GetAdvice ''history'' (Secret ''OPENAI_KEY'') (Secret ''DB_CONNECTION'')]
   \<and> main_run no_sheet_world (parsed_as (JDict [(''advice'', JStr ''Spend less'')]))
     = (Inl (Exc ''FetchError'' ''spreadsheet not reachable''),
        [FetchData (Secret ''API_KEY'') (Secret ''SHEET_ID'')])"
proof -
  obtain r h' where run: "run_pipeline happy_world (parsed_as (JDict [(''advice'', JStr ''Spend less'')]))
      (Secret ''API_KEY'') (Secret ''SHEET_ID'') (Secret ''DB_CONNECTION'')
      (Secret ''HF_TOKEN'') (Secret ''OPENAI_KEY'') (Secret ''TEXTBELT_KEY'')
      ''DATABASE'' ''COLLECTION'' [] = (r, h')"
    by (cases "run_pipeline happy_world (parsed_as (JDict [(''advice'', JStr ''Spend less'')]))
      (Secret ''API_KEY'') (Secret ''SHEET_ID'') (Secret ''DB_CONNECTION'')
      (Secret ''HF_TOKEN'') (Secret ''OPENAI_KEY'') (Secret ''TEXTBELT_KEY'')
      ''DATABASE'' ''COLLECTION'' []") blast
  have q: "quote_str ''Spend less'' = ''Spend%20less''" by code_simp
  from run_pipeline_stages_in_order[OF run]
  have "send happy_world ''Spend%20less'' (Secret ''TEXTBELT_KEY'')
         [FetchData (Secret ''API_KEY'') (Secret ''SHEET_ID''),
          FilterNew ''rows'' (Secret ''DB_CONNECTION'') ''DATABASE'' ''COLLECTION'',
          Categorize ''new rows'' (Secret ''HF_TOKEN''),
          WriteToMongo ''categorized rows'' (Secret ''DB_CONNECTION'') ''DATABASE'' ''COLLECTION'',
          GetFromMongo (Secret ''DB_CONNECTION'') ''DATABASE'' ''COLLECTION'',
          GetAdvice ''history'' (Secret ''OPENAI_KEY'') (Secret ''DB_CONNECTION'')] = (r, h')"
    by (simp add: Let_def happy_world_def encode_advice_def parsed_as_def q)
  with run have first: "main_run happy_world (parsed_as (JDict [(''advice'', JStr ''Spend less'')]))
     = send happy_world ''Spend%20less'' (Secret ''TEXTBELT_KEY'')
         [FetchData (Secret ''API_KEY'') (Secret ''SHEET_ID''),
          FilterNew ''rows'' (Secret ''DB_CONNECTION'') ''DATABASE'' ''COLLECTION'',
          Categorize ''new rows'' (Secret ''HF_TOKEN''),
          WriteToMongo ''categorized rows'' (Secret ''DB_CONNECTION'') ''DATABASE'' ''COLLECTION'',
          GetFromMongo (Secret ''DB_CONNECTION'') ''DATABASE'' ''COLLECTION'',
          GetAdvice ''history'' (Secret ''OPENAI_KEY'') (Secret ''DB_CONNECTION'')]"
    by (simp add: main_run_def)
  obtain r2 h2 where run2: "run_pipeline no_sheet_world (parsed_as (JDict [(''advice'', JStr ''Spend less'')]))
      (Secret ''API_KEY'') (Secret ''SHEET_ID'') (Secret ''DB_CONNECTION'')
      (Secret ''HF_TOKEN'') (Secret ''OPENAI_KEY'') (Secret ''TEXTBELT_KEY'')
      ''DATABASE'' ''COLLECTION'' [] = (r2, h2)"
    by (cases "run_pipeline no_sheet_world (parsed_as (JDict [(''advice'', JStr ''Spend less'')]))
      (Secret ''API_KEY'') (Secret ''SHEET_ID'') (Secret ''DB_CONNECTION'')
      (Secret ''HF_TOKEN'') (Secret ''OPENAI_KEY'') (Secret ''TEXTBELT_KEY'')
      ''DATABASE'' ''COLLECTION'' []") blast
  from run_pipeline_stages_in_order[OF run2]
  have "r2 = Inl (Exc ''FetchError'' ''spreadsheet not reachable'')
        \<and> h2 = [FetchData (Secret ''API_KEY'') (Secret ''SHEET_ID'')]"
    by (simp add: Let_def no_sheet_world_def)
  with run2 have second: "main_run no_sheet_world (parsed_as (JDict [(''advice'', JStr ''Spend less'')]))
     = (Inl (Exc ''FetchError'' ''spreadsheet not reachable''),
        [FetchData (Secret ''API_KEY'') (Secret ''SHEET_ID'')])"
    by (simp add: main_run_def)
  from first second show ?thesis by (rule conjI)
qed

theorem write_result_unused_counterexample:
  "ack_world ''inserted 2''
       [FetchData (Secret ''API_KEY'') (Secret ''SHEET_ID''),
        FilterNew ''rows'' (Secret ''DB_CONNECTION'') ''DATABASE'' ''COLLECTION'',
        Categorize ''new rows'' (Secret ''HF_TOKEN'')]
       (WriteToMongo ''categorized rows'' (Secret ''DB_CONNECTION'') ''DATABASE'' ''COLLECTION'')
     = Inr ''inserted 2''
   \<and> ack_world ''inserted 0''
       [FetchData (Secret ''API_KEY'') (Secret ''SHEET_ID''),
        FilterNew ''rows'' (Secret ''DB_CONNECTION'') ''DATABASE'' ''COLLECTION'',
        Categorize ''new rows'' (Secret ''HF_TOKEN'')]
       (WriteToMongo ''categorized rows'' (Secret ''DB_CONNECTION'') ''DATABASE'' ''COLLECTION'')
     = Inr ''inserted 0''
   \<and> snd (main_run (ack_world ''inserted 2'') (parsed_as (JDict [(''advice'', JStr ''Spend less'')]))) ! 3
     = WriteToMongo ''categorized rows'' (Secret ''DB_CONNECTION'') ''DATABASE'' ''COLLECTION''
   \<and> snd (main_run (ack_world ''inserted 2'') (parsed_as (JDict [(''advice'', JStr ''Spend less'')]))) ! 4
     = GetFromMongo (Secret ''DB_CONNECTION'') ''DATABASE'' ''COLLECTION''
   \<and> snd (main_run (ack_world ''inserted 0'') (parsed_as (JDict [(''advice'', JStr ''Spend less'')]))) ! 4
     = GetFromMongo (Secret ''DB_CONNECTION'') ''DATABASE'' ''COLLECTION''
   \<and> main_run (ack_world ''inserted 2'') (parsed_as (JDict [(''advice'', JStr ''Spend less'')]))
     = main_run (ack_world ''inserted 0'') (parsed_as (JDict [(''advice'', JStr ''Spend less'')]))"
  by (simp add: ack_main_run) (simp add: ack_world_def)

subsection \<open>C2: the attempts \<^verbatim>\<open>send\<close> makes\<close>




subsection \<open>C3: when \<^verbatim>\<open>send\<close> raises\<close>

text \<open>
  C3, as amended. Once the secret is read, \<^verbatim>\<open>send\<close> over a list that is not empty raises
  if and only if the attempt for some number fails. It raises at the first such number in
  list order, having made the attempts up to that number and no later one: a
  \<^verbatim>\<open>RuntimeError\<close> naming that number when the container call raised an \<^verbatim>\<open>Exception\<close> or
  its output lacks the marker, and the exception of the container call itself when that
  is not an \<^verbatim>\<open>Exception\<close>. (The claim as written, an error only for the last number, is
  refuted below.)
\<close>

theorem send_to_raises_iff_some_attempt_fails:
  assumes key: "env h (Plaintext textBelt) = Inr text_belt_key"
      and ne: "numbers \<noteq> []"
  shows "(isl (fst (send_to numbers env encoded_message textBelt h)) \<longleftrightarrow>
            (\<exists>i \<in> set [0..<length numbers].
                fails_at env h textBelt encoded_message text_belt_key numbers i))
       \<and> (first_failure env h textBelt encoded_message text_belt_key numbers k \<longrightarrow>
            send_to numbers env encoded_message textBelt h =
              (Inl (case env (history_before h textBelt encoded_message text_belt_key numbers k)
                             (curl_call encoded_message text_belt_key (numbers ! k)) of
                      Inl e \<Rightarrow>
                        if is_Exception e
                        then RuntimeError (''Error sending message to '' @ numbers ! k @ '': ''
                               @ exc_str e)
                        else e
                    | Inr result \<Rightarrow>
                        RuntimeError (''Error sending message to '' @ numbers ! k @ '': ''
                          @ ''Failed to send message to '' @ numbers ! k @ '': '' @ result)),
               history_before h textBelt encoded_message text_belt_key numbers (Suc k)))"
proof (intro conjI impI iffI)
  assume raised: "isl (fst (send_to numbers env encoded_message textBelt h))"
  show "\<exists>i \<in> set [0..<length numbers]. fails_at env h textBelt encoded_message text_belt_key numbers i"
  proof (rule ccontr)
    assume "\<not> ?thesis"
    then have "\<forall>i<length numbers. \<not> fails_at env h textBelt encoded_message text_belt_key numbers i"
      by simp
    from no_failure_send_to[where env = env, OF key ne this] raised show False by auto
  qed
next
  assume "\<exists>i \<in> set [0..<length numbers]. fails_at env h textBelt encoded_message text_belt_key numbers i"
  then obtain i where "i < length numbers" "fails_at env h textBelt encoded_message text_belt_key numbers i"
    by auto
  from some_failure_first_failure[OF this] obtain k' where
    "first_failure env h textBelt encoded_message text_belt_key numbers k'" by blast
  from first_failure_send_to[where env = env, OF key this]
  show "isl (fst (send_to numbers env encoded_message textBelt h))" by simp
next
  assume "first_failure env h textBelt encoded_message text_belt_key numbers k"
  from first_failure_send_to[where env = env, OF key this]
  show "send_to numbers env encoded_message textBelt h =
              (Inl (case env (history_before h textBelt encoded_message text_belt_key numbers k)
                             (curl_call encoded_message text_belt_key (numbers ! k)) of
                      Inl e \<Rightarrow>
                        if is_Exception e
                        then RuntimeError (''Error sending message to '' @ numbers ! k @ '': ''
                               @ exc_str e)
                        else e
                    | Inr result \<Rightarrow>
                        RuntimeError (''Error sending message to '' @ numbers ! k @ '': ''
                          @ ''Failed to send message to '' @ numbers ! k @ '': '' @ result)),
               history_before h textBelt encoded_message text_belt_key numbers (Suc k))"
    by (simp add: attempt_error_def raised_for_def)
qed

theorem send_to_raises_iff_some_attempt_fails_witness:
  "first_attempt_answers (Inr ''Bad Gateway'') [] (Plaintext (Secret ''TEXTBELT_KEY'')) = Inr ''key''
   \<and> phone_numbers \<noteq> []
   \<and> first_failure (first_attempt_answers (Inr ''Bad Gateway'')) [] (Secret ''TEXTBELT_KEY'')
        ''hi'' ''key'' phone_numbers 0
   \<and> isl (fst (send_to phone_numbers (first_attempt_answers (Inr ''Bad Gateway'')) ''hi''
        (Secret ''TEXTBELT_KEY'') []))
   \<and> send_to phone_numbers (first_attempt_answers (Inr ''Bad Gateway'')) ''hi''
        (Secret ''TEXTBELT_KEY'') []
      = (Inl (RuntimeError
           ''Error sending message to 15162341744: Failed to send message to 15162341744: Bad Gateway''),
         [Plaintext (Secret ''TEXTBELT_KEY''), curl_call ''hi'' ''key'' ''15162341744''])
   \<and> first_attempt_answers (Inl (BaseExc ''KeyboardInterrupt'' '''')) []
        (Plaintext (Secret ''TEXTBELT_KEY'')) = Inr ''key''
   \<and> first_failure (first_attempt_answers (Inl (BaseExc ''KeyboardInterrupt'' ''''))) []
        (Secret ''TEXTBELT_KEY'') ''hi'' ''key'' phone_numbers 0
   \<and> send_to phone_numbers (first_attempt_answers (Inl (BaseExc ''KeyboardInterrupt'' ''''))) ''hi''
        (Secret ''TEXTBELT_KEY'') []
      = (Inl (BaseExc ''KeyboardInterrupt'' ''''),
         [Plaintext (Secret ''TEXTBELT_KEY''), curl_call ''hi'' ''key'' ''15162341744''])
   \<and> happy_world [] (Plaintext (Secret ''TEXTBELT_KEY'')) = Inr ''key''
   \<and> \<not> fails_at happy_world [] (Secret ''TEXTBELT_KEY'') ''hi'' ''key'' phone_numbers 0
   \<and> \<not> fails_at happy_world [] (Secret ''TEXTBELT_KEY'') ''hi'' ''key'' phone_numbers 1
   \<and> \<not> isl (fst (send_to phone_numbers happy_world ''hi'' (Secret ''TEXTBELT_KEY'') []))"
proof -
  let ?w1 = "first_attempt_answers (Inr ''Bad Gateway'')"
  let ?w2 = "first_attempt_answers (Inl (BaseExc ''KeyboardInterrupt'' ''''))"
  have k1: "?w1 [] (Plaintext (Secret ''TEXTBELT_KEY'')) = Inr ''key''"
    by (simp add: first_attempt_answers_def)
  have k2: "?w2 [] (Plaintext (Secret ''TEXTBELT_KEY'')) = Inr ''key''"
    by (simp add: first_attempt_answers_def)
  have k3: "happy_world [] (Plaintext (Secret ''TEXTBELT_KEY'')) = Inr ''key''"
    by (simp add: happy_world_def)
  have ne: "phone_numbers \<noteq> []"
    by (simp add: phone_numbers_def)
  have ff1: "first_failure ?w1 [] (Secret ''TEXTBELT_KEY'') ''hi'' ''key'' phone_numbers 0"
    by (simp add: first_failure_def fails_at_def history_before_def attempt_failed_def
        first_attempt_answers_def phone_numbers_def)
  have ff2: "first_failure ?w2 [] (Secret ''TEXTBELT_KEY'') ''hi'' ''key'' phone_numbers 0"
    by (simp add: first_failure_def fails_at_def history_before_def attempt_failed_def
        first_attempt_answers_def phone_numbers_def)
  have r1: "isl (fst (send_to phone_numbers ?w1 ''hi'' (Secret ''TEXTBELT_KEY'') []))
    \<and> send_to phone_numbers ?w1 ''hi'' (Secret ''TEXTBELT_KEY'') []
      = (Inl (RuntimeError
           ''Error sending message to 15162341744: Failed to send message to 15162341744: Bad Gateway''),
         [Plaintext (Secret ''TEXTBELT_KEY''), curl_call ''hi'' ''key'' ''15162341744''])"
    using send_to_raises_iff_some_attempt_fails [where env = ?w1, OF k1 ne, of "''hi''" 0] ff1
    by (simp add: phone_numbers_def history_before_def first_attempt_answers_def)
  have r2: "send_to phone_numbers ?w2 ''hi'' (Secret ''TEXTBELT_KEY'') []
      = (Inl (BaseExc ''KeyboardInterrupt'' ''''),
         [Plaintext (Secret ''TEXTBELT_KEY''), curl_call ''hi'' ''key'' ''15162341744''])"
    using send_to_raises_iff_some_attempt_fails [where env = ?w2, OF k2 ne, of "''hi''" 0] ff2
    by (simp add: phone_numbers_def history_before_def first_attempt_answers_def)
  have r3: "\<not> isl (fst (send_to phone_numbers happy_world ''hi'' (Secret ''TEXTBELT_KEY'') []))"
    using send_to_raises_iff_some_attempt_fails [where env = happy_world, OF k3 ne, of "''hi''" 0]
    by (simp add: happy_fails_at)
  show ?thesis
    using k1 ne ff1 r1 k2 ff2 r2 k3 r3 by (simp add: happy_fails_at)
qed

theorem send_raises_for_first_number_counterexample:
  "send (first_attempt_answers (Inr ''Bad Gateway'')) ''hi'' (Secret ''TEXTBELT_KEY'') []
      = (Inl (RuntimeError
           ''Error sending message to 15162341744: Failed to send message to 15162341744: Bad Gateway''),
         [Plaintext (Secret ''TEXTBELT_KEY''), curl_call ''hi'' ''key'' ''15162341744''])
   \<and> \<not> attempt_failed (first_attempt_answers (Inr ''Bad Gateway''))
         [Plaintext (Secret ''TEXTBELT_KEY''), curl_call ''hi'' ''key'' ''15162341744'']
         (curl_call ''hi'' ''key'' (last phone_numbers))"
  by (simp add: phone_numbers_def send_def send_to_def perform_def attempt_def
      first_attempt_answers_def attempt_failed_def ValueError_def curl_call_def dq_def)

subsection \<open>C4: the advice is asked once, from the history read after the write\<close>

text \<open>
  C4, as amended. In every run in which the fetch, the filter, the categorizer, the write
  and the read answer, the write of the categorized transactions is the call just before
  the read for the advice, and the generator is called exactly once, with exactly the
  history that this read returned. A run in which one of these stages raises makes no
  call to the generator at all. Whether the history read contains the transactions just
  written is the store's affair: the code hands on what the read returns and checks
  nothing (in a store that is an append-only ledger it does contain them,
  \<open>ledger_read_after_write\<close> above). (The claim as written, one advice payload in every run and a history that
  always includes the written transactions, is refuted below.)
\<close>

theorem advice_asked_once_after_write:
  assumes "run_pipeline env loads apiKey sheet connection hftoken openai textBelt database
             collection h = (r, h')"
  shows
   "(\<forall>json_resp new_transactions categorized_transactions write_to_mongo get_data.
        env h (FetchData apiKey sheet) = Inr json_resp \<longrightarrow>
        env (h @ [FetchData apiKey sheet])
          (FilterNew json_resp connection database collection) = Inr new_transactions \<longrightarrow>
        env (h @ [FetchData apiKey sheet, FilterNew json_resp connection database collection])
          (Categorize new_transactions hftoken) = Inr categorized_transactions \<longrightarrow>
        env (h @ [FetchData apiKey sheet, FilterNew json_resp connection database collection,
                  Categorize new_transactions hftoken])
          (WriteToMongo categorized_transactions connection database collection)
          = Inr write_to_mongo \<longrightarrow>
        env (h @ [FetchData apiKey sheet, FilterNew json_resp connection database collection,
                  Categorize new_transactions hftoken,
                  WriteToMongo categorized_transactions connection database collection])
          (GetFromMongo connection database collection) = Inr get_data \<longrightarrow>
          take 6 (drop (length h) h') =
            [FetchData apiKey sheet,
             FilterNew json_resp connection database collection,
             Categorize new_transactions hftoken,
             WriteToMongo categorized_transactions connection database collection,
             GetFromMongo connection database collection,
             GetAdvice get_data openai connection]
        \<and> filter is_get_advice (drop (length h) h') = [GetAdvice get_data openai connection])
    \<and> (filter is_get_advice (drop (length h) h') \<noteq> [] \<longrightarrow>
        (\<exists>json_resp new_transactions categorized_transactions write_to_mongo get_data.
           env h (FetchData apiKey sheet) = Inr json_resp
         \<and> env (h @ [FetchData apiKey sheet])
              (FilterNew json_resp connection database collection) = Inr new_transactions
         \<and> env (h @ [FetchData apiKey sheet, FilterNew json_resp connection database collection])
              (Categorize new_transactions hftoken) = Inr categorized_transactions
         \<and> env (h @ [FetchData apiKey sheet, FilterNew json_resp connection database collection,
                      Categorize new_transactions hftoken])
              (WriteToMongo categorized_transactions connection database collection)
              = Inr write_to_mongo
         \<and> env (h @ [FetchData apiKey sheet, FilterNew json_resp connection database collection,
                      Categorize new_transactions hftoken,
                      WriteToMongo categorized_transactions connection database collection])
              (GetFromMongo connection database collection) = Inr get_data))
    \<and> length (filter is_get_advice (drop (length h) h')) \<le> 1"
  using assms
proof (cases rule: run_pipeline_cases)
  case (fetch_fails e)
  then show ?thesis by simp
next
  case (filter_fails j e)
  then show ?thesis by simp
next
  case (categorize_fails j n e)
  then show ?thesis by simp
next
  case (write_fails j n ct e)
  then show ?thesis by simp
next
  case (get_fails j n ct w e)
  then show ?thesis by simp
next
  case (generate_fails j n ct w g e)
  then show ?thesis by simp
next
  case (encode_fails j n ct w g resp e)
  then show ?thesis by simp
next
  case (notifies j n ct w g resp m)
  from send_no_get_advice[OF notifies(8)] obtain cs where
    h': "h' = (h @ [FetchData apiKey sheet, FilterNew j connection database collection,
                    Categorize n hftoken, WriteToMongo ct connection database collection,
                    GetFromMongo connection database collection,
                    GetAdvice g openai connection]) @ cs"
    and none: "filter is_get_advice cs = []"
    by blast
  from h' none notifies(1-5) show ?thesis by simp
qed


theorem advice_asked_once_after_write_witness:
  "run_pipeline ledger_world (parsed_as (JDict [(''advice'', JStr ''Spend less'')]))
       (Secret ''API_KEY'') (Secret ''SHEET_ID'') (Secret ''DB_CONNECTION'')
       (Secret ''HF_TOKEN'') (Secret ''OPENAI_KEY'') (Secret ''TEXTBELT_KEY'')
       ''DATABASE'' ''COLLECTION''
       [WriteToMongo ''earlier rows, '' (Secret ''DB_CONNECTION'') ''DATABASE'' ''COLLECTION'']
     = (Inr (''{'' @ dq @ ''success'' @ dq @ '': true}''),
        [WriteToMongo ''earlier rows, '' (Secret ''DB_CONNECTION'') ''DATABASE'' ''COLLECTION'',
         FetchData (Secret ''API_KEY'') (Secret ''SHEET_ID''),
         FilterNew ''rows'' (Secret ''DB_CONNECTION'') ''DATABASE'' ''COLLECTION'',
         Categorize ''new rows'' (Secret ''HF_TOKEN''),
         WriteToMongo ''categorized rows'' (Secret ''DB_CONNECTION'') ''DATABASE'' ''COLLECTION'',
         GetFromMongo (Secret ''DB_CONNECTION'') ''DATABASE'' ''COLLECTION'',
         GetAdvice ''earlier rows, categorized rows'' (Secret ''OPENAI_KEY'') (Secret ''DB_CONNECTION''),
         Plaintext (Secret ''TEXTBELT_KEY''),
         curl_call ''Spend%20less'' ''key'' ''15162341744'',
         curl_call ''Spend%20less'' ''key'' ''15512259418''])
   \<and> ledger_world
        [WriteToMongo ''earlier rows, '' (Secret ''DB_CONNECTION'') ''DATABASE'' ''COLLECTION'',
         FetchData (Secret ''API_KEY'') (Secret ''SHEET_ID''),
         FilterNew ''rows'' (Secret ''DB_CONNECTION'') ''DATABASE'' ''COLLECTION'',
         Categorize ''new rows'' (Secret ''HF_TOKEN''),
         WriteToMongo ''categorized rows'' (Secret ''DB_CONNECTION'') ''DATABASE'' ''COLLECTION'']
        (GetFromMongo (Secret ''DB_CONNECTION'') ''DATABASE'' ''COLLECTION'')
     = Inr ''earlier rows, categorized rows''
   \<and> filter is_get_advice
        [FetchData (Secret ''API_KEY'') (Secret ''SHEET_ID''),
         FilterNew ''rows'' (Secret ''DB_CONNECTION'') ''DATABASE'' ''COLLECTION'',
         Categorize ''new rows'' (Secret ''HF_TOKEN''),
         WriteToMongo ''categorized rows'' (Secret ''DB_CONNECTION'') ''DATABASE'' ''COLLECTION'',
         GetFromMongo (Secret ''DB_CONNECTION'') ''DATABASE'' ''COLLECTION'',
         GetAdvice ''earlier rows, categorized rows'' (Secret ''OPENAI_KEY'') (Secret ''DB_CONNECTION''),
         Plaintext (Secret ''TEXTBELT_KEY''),
         curl_call ''Spend%20less'' ''key'' ''15162341744'',
         curl_call ''Spend%20less'' ''key'' ''15512259418'']
     = [GetAdvice ''earlier rows, categorized rows'' (Secret ''OPENAI_KEY'') (Secret ''DB_CONNECTION'')]"
proof -
  let ?L = "parsed_as (JDict [(''advice'', JStr ''Spend less'')])"
  let ?h0 = "[WriteToMongo ''earlier rows, '' (Secret ''DB_CONNECTION'') ''DATABASE'' ''COLLECTION'']"
  let ?h' = "[WriteToMongo ''earlier rows, '' (Secret ''DB_CONNECTION'') ''DATABASE'' ''COLLECTION'',
         FetchData (Secret ''API_KEY'') (Secret ''SHEET_ID''),
         FilterNew ''rows'' (Secret ''DB_CONNECTION'') ''DATABASE'' ''COLLECTION'',
         Categorize ''new rows'' (Secret ''HF_TOKEN''),
         WriteToMongo ''categorized rows'' (Secret ''DB_CONNECTION'') ''DATABASE'' ''COLLECTION'',
         GetFromMongo (Secret ''DB_CONNECTION'') ''DATABASE'' ''COLLECTION'',
         GetAdvice ''earlier rows, categorized rows'' (Secret ''OPENAI_KEY'') (Secret ''DB_CONNECTION''),
         Plaintext (Secret ''TEXTBELT_KEY''),
         curl_call ''Spend%20less'' ''key'' ''15162341744'',
         curl_call ''Spend%20less'' ''key'' ''15512259418'']"
  have q: "quote_str ''Spend less'' = ''Spend%20less''" by code_simp
  have run: "run_pipeline ledger_world ?L
       (Secret ''API_KEY'') (Secret ''SHEET_ID'') (Secret ''DB_CONNECTION'')
       (Secret ''HF_TOKEN'') (Secret ''OPENAI_KEY'') (Secret ''TEXTBELT_KEY'')
       ''DATABASE'' ''COLLECTION'' ?h0
     = (Inr (''{'' @ dq @ ''success'' @ dq @ '': true}''), ?h')"
    by (simp add: run_pipeline_def perform_def ledger_world_def encode_advice_def parsed_as_def q
        ledger_send)
  have a1: "ledger_world ?h0 (FetchData (Secret ''API_KEY'') (Secret ''SHEET_ID'')) = Inr ''rows''"
    by (simp add: ledger_world_def)
  have a2: "ledger_world (?h0 @ [FetchData (Secret ''API_KEY'') (Secret ''SHEET_ID'')])
              (FilterNew ''rows'' (Secret ''DB_CONNECTION'') ''DATABASE'' ''COLLECTION'')
            = Inr ''new rows''"
    by (simp add: ledger_world_def)
  have a3: "ledger_world (?h0 @ [FetchData (Secret ''API_KEY'') (Secret ''SHEET_ID''),
               FilterNew ''rows'' (Secret ''DB_CONNECTION'') ''DATABASE'' ''COLLECTION''])
              (Categorize ''new rows'' (Secret ''HF_TOKEN'')) = Inr ''categorized rows''"
    by (simp add: ledger_world_def)
  have a4: "ledger_world (?h0 @ [FetchData (Secret ''API_KEY'') (Secret ''SHEET_ID''),
               FilterNew ''rows'' (Secret ''DB_CONNECTION'') ''DATABASE'' ''COLLECTION'',
               Categorize ''new rows'' (Secret ''HF_TOKEN'')])
              (WriteToMongo ''categorized rows'' (Secret ''DB_CONNECTION'') ''DATABASE'' ''COLLECTION'')
            = Inr ''inserted''"
    by (simp add: ledger_world_def)
  have a5: "ledger_world (?h0 @ [FetchData (Secret ''API_KEY'') (Secret ''SHEET_ID''),
               FilterNew ''rows'' (Secret ''DB_CONNECTION'') ''DATABASE'' ''COLLECTION'',
               Categorize ''new rows'' (Secret ''HF_TOKEN''),
               WriteToMongo ''categorized rows'' (Secret ''DB_CONNECTION'') ''DATABASE'' ''COLLECTION''])
              (GetFromMongo (Secret ''DB_CONNECTION'') ''DATABASE'' ''COLLECTION'')
            = Inr ''earlier rows, categorized rows''"
    by (simp add: ledger_world_def)
  from advice_asked_once_after_write[OF run, THEN conjunct1, rule_format, OF a1 a2 a3 a4 a5]
  have once: "filter is_get_advice (drop (length ?h0) ?h')
     = [GetAdvice ''earlier rows, categorized rows'' (Secret ''OPENAI_KEY'') (Secret ''DB_CONNECTION'')]"
    by (rule conjunct2)
  then have asked: "filter is_get_advice (drop (length ?h0) ?h') \<noteq> []"
    by simp
  from advice_asked_once_after_write[OF run, THEN conjunct2, THEN conjunct1, rule_format, OF asked]
  have "\<exists>json_resp new_transactions categorized_transactions write_to_mongo get_data.
           ledger_world ?h0 (FetchData (Secret ''API_KEY'') (Secret ''SHEET_ID'')) = Inr json_resp"
    by blast
  with run a5 once show ?thesis by simp
qed

theorem advice_not_in_every_run_counterexample:
  "filter is_get_advice
       (snd (main_run no_sheet_world (parsed_as (JDict [(''advice'', JStr ''Spend less'')])))) = []
   \<and> snd (main_run happy_world (parsed_as (JDict [(''advice'', JStr ''Spend less'')]))) ! 3
     = WriteToMongo ''categorized rows'' (Secret ''DB_CONNECTION'') ''DATABASE'' ''COLLECTION''
   \<and> snd (main_run happy_world (parsed_as (JDict [(''advice'', JStr ''Spend less'')]))) ! 5
     = GetAdvice ''history'' (Secret ''OPENAI_KEY'') (Secret ''DB_CONNECTION'')
   \<and> \<not> py_in ''categorized rows'' ''history''"
  by (simp add: no_sheet_main_run happy_main_run)

subsection \<open>C5: an envelope without the advice field\<close>

text \<open>
  C5, as amended. When the generator's answer decodes to a JSON object that has no
  \<^verbatim>\<open>advice\<close> field, \<^verbatim>\<open>dict.get\<close> gives \<^verbatim>\<open>None\<close> and \<^verbatim>\<open>urllib.parse.quote\<close> raises a
  \<^verbatim>\<open>TypeError\<close>: the run ends with that error after the generator's call, and no delivery
  is attempted. The code has no \<^verbatim>\<open>GenerationError\<close>, and it does not reject an advice field
  that is present and empty: the empty message is then handed to \<^verbatim>\<open>send\<close>. (The claim as
  written, a \<^verbatim>\<open>GenerationError\<close> and no empty advice ever sent, is refuted below.)
\<close>

theorem missing_advice_field_aborts_before_sms:
  assumes "env h (FetchData apiKey sheet) = Inr json_resp"
      and "env (h @ [FetchData apiKey sheet])
             (FilterNew json_resp connection database collection) = Inr new_transactions"
      and "env (h @ [FetchData apiKey sheet, FilterNew json_resp connection database collection])
             (Categorize new_transactions hftoken) = Inr categorized_transactions"
      and "env (h @ [FetchData apiKey sheet, FilterNew json_resp connection database collection,
                     Categorize new_transactions hftoken])
             (WriteToMongo categorized_transactions connection database collection)
             = Inr write_to_mongo"
      and "env (h @ [FetchData apiKey sheet, FilterNew json_resp connection database collection,
                     Categorize new_transactions hftoken,
                     WriteToMongo categorized_transactions connection database collection])
             (GetFromMongo connection database collection) = Inr get_data"
      and "env (h @ [FetchData apiKey sheet, FilterNew json_resp connection database collection,
                     Categorize new_transactions hftoken,
                     WriteToMongo categorized_transactions connection database collection,
                     GetFromMongo connection database collection])
             (GetAdvice get_data openai connection) = Inr generate_resp"
      and "loads generate_resp = Inr (JDict items)"
  shows "(map_of items ''advice'' = None \<longrightarrow>
            run_pipeline env loads apiKey sheet connection hftoken openai textBelt database collection h
              = (Inl (TypeError ''quote_from_bytes() expected bytes''),
                 h @ [FetchData apiKey sheet, FilterNew json_resp connection database collection,
                      Categorize new_transactions hftoken,
                      WriteToMongo categorized_transactions connection database collection,
                      GetFromMongo connection database collection,
                      GetAdvice get_data openai connection])
          \<and> attempts_made h (snd (run_pipeline env loads apiKey sheet connection hftoken openai
                 textBelt database collection h)) = [])
       \<and> (map_of items ''advice'' = Some (JStr '''') \<longrightarrow>
            run_pipeline env loads apiKey sheet connection hftoken openai textBelt database collection h
              = send env '''' textBelt
                 (h @ [FetchData apiKey sheet, FilterNew json_resp connection database collection,
                      Categorize new_transactions hftoken,
                      WriteToMongo categorized_transactions connection database collection,
                      GetFromMongo connection database collection,
                      GetAdvice get_data openai connection]))"
  using assms
  by (simp add: run_pipeline_def perform_def encode_advice_def attempts_made_def quote_str_def)

theorem missing_advice_field_aborts_before_sms_witness:
  "parsed_as (JDict []) ''envelope'' = Inr (JDict [])
   \<and> map_of ([] :: (string \<times> json) list) ''advice'' = None
   \<and> main_run happy_world (parsed_as (JDict []))
     = (Inl (TypeError ''quote_from_bytes() expected bytes''),
        [FetchData (Secret ''API_KEY'') (Secret ''SHEET_ID''),
         FilterNew ''rows'' (Secret ''DB_CONNECTION'') ''DATABASE'' ''COLLECTION'',
         Categorize ''new rows'' (Secret ''HF_TOKEN''),
         WriteToMongo ''categorized rows'' (Secret ''DB_CONNECTION'') ''DATABASE'' ''COLLECTION'',
         GetFromMongo (Secret ''DB_CONNECTION'') ''DATABASE'' ''COLLECTION'',
         GetAdvice ''history'' (Secret ''OPENAI_KEY'') (Secret ''DB_CONNECTION'')])
   \<and> attempts_made [] (snd (main_run happy_world (parsed_as (JDict [])))) = []
   \<and> parsed_as (JDict [(''advice'', JStr '''')]) ''envelope'' = Inr (JDict [(''advice'', JStr '''')])
   \<and> map_of [(''advice'', JStr '''')] ''advice'' = Some (JStr '''')
   \<and> main_run happy_world (parsed_as (JDict [(''advice'', JStr '''')]))
     = send happy_world '''' (Secret ''TEXTBELT_KEY'')
        [FetchData (Secret ''API_KEY'') (Secret ''SHEET_ID''),
         FilterNew ''rows'' (Secret ''DB_CONNECTION'') ''DATABASE'' ''COLLECTION'',
         Categorize ''new rows'' (Secret ''HF_TOKEN''),
         WriteToMongo ''categorized rows'' (Secret ''DB_CONNECTION'') ''DATABASE'' ''COLLECTION'',
         GetFromMongo (Secret ''DB_CONNECTION'') ''DATABASE'' ''COLLECTION'',
         GetAdvice ''history'' (Secret ''OPENAI_KEY'') (Secret ''DB_CONNECTION'')]"
proof -
  have a1: "happy_world [] (FetchData (Secret ''API_KEY'') (Secret ''SHEET_ID'')) = Inr ''rows''"
    by (simp add: happy_world_def)
  have a2: "happy_world ([] @ [FetchData (Secret ''API_KEY'') (Secret ''SHEET_ID'')])
              (FilterNew ''rows'' (Secret ''DB_CONNECTION'') ''DATABASE'' ''COLLECTION'')
            = Inr ''new rows''"
    by (simp add: happy_world_def)
  have a3: "happy_world ([] @ [FetchData (Secret ''API_KEY'') (Secret ''SHEET_ID''),
               FilterNew ''rows'' (Secret ''DB_CONNECTION'') ''DATABASE'' ''COLLECTION''])
              (Categorize ''new rows'' (Secret ''HF_TOKEN'')) = Inr ''categorized rows''"
    by (simp add: happy_world_def)
  have a4: "happy_world ([] @ [FetchData (Secret ''API_KEY'') (Secret ''SHEET_ID''),
               FilterNew ''rows'' (Secret ''DB_CONNECTION'') ''DATABASE'' ''COLLECTION'',
               Categorize ''new rows'' (Secret ''HF_TOKEN'')])
              (WriteToMongo ''categorized rows'' (Secret ''DB_CONNECTION'') ''DATABASE'' ''COLLECTION'')
            = Inr ''inserted''"
    by (simp add: happy_world_def)
  have a5: "happy_world ([] @ [FetchData (Secret ''API_KEY'') (Secret ''SHEET_ID''),
               FilterNew ''rows'' (Secret ''DB_CONNECTION'') ''DATABASE'' ''COLLECTION'',
               Categorize ''new rows'' (Secret ''HF_TOKEN''),
               WriteToMongo ''categorized rows'' (Secret ''DB_CONNECTION'') ''DATABASE'' ''COLLECTION''])
              (GetFromMongo (Secret ''DB_CONNECTION'') ''DATABASE'' ''COLLECTION'') = Inr ''history''"
    by (simp add: happy_world_def)
  have a6: "happy_world ([] @ [FetchData (Secret ''API_KEY'') (Secret ''SHEET_ID''),
               FilterNew ''rows'' (Secret ''DB_CONNECTION'') ''DATABASE'' ''COLLECTION'',
               Categorize ''new rows'' (Secret ''HF_TOKEN''),
               WriteToMongo ''categorized rows'' (Secret ''DB_CONNECTION'') ''DATABASE'' ''COLLECTION'',
               GetFromMongo (Secret ''DB_CONNECTION'') ''DATABASE'' ''COLLECTION''])
              (GetAdvice ''history'' (Secret ''OPENAI_KEY'') (Secret ''DB_CONNECTION''))
            = Inr ''envelope''"
    by (simp add: happy_world_def)
  have p1: "parsed_as (JDict []) ''envelope'' = Inr (JDict [])"
    by (simp add: parsed_as_def)
  have p2: "parsed_as (JDict [(''advice'', JStr '''')]) ''envelope''
              = Inr (JDict [(''advice'', JStr '''')])"
    by (simp add: parsed_as_def)
  show ?thesis
    using missing_advice_field_aborts_before_sms[where env = happy_world and h = "[]"
        and loads = "parsed_as (JDict [])" and textBelt = "Secret ''TEXTBELT_KEY''",
        OF a1 a2 a3 a4 a5 a6 p1]
      missing_advice_field_aborts_before_sms[where env = happy_world and h = "[]"
        and loads = "parsed_as (JDict [(''advice'', JStr '''')])"
        and textBelt = "Secret ''TEXTBELT_KEY''",
        OF a1 a2 a3 a4 a5 a6 p2]
      p1 p2
    by (simp add: main_run_def attempts_made_def)
qed

theorem missing_advice_field_counterexample:
  "map_of [(''tips'', JStr ''Spend less'')] ''advice'' = None
   \<and> main_run happy_world (parsed_as (JDict [(''tips'', JStr ''Spend less'')]))
     = (Inl (Exc ''TypeError'' ''quote_from_bytes() expected bytes''),
        [FetchData (Secret ''API_KEY'') (Secret ''SHEET_ID''),
         FilterNew ''rows'' (Secret ''DB_CONNECTION'') ''DATABASE'' ''COLLECTION'',
         Categorize ''new rows'' (Secret ''HF_TOKEN''),
         WriteToMongo ''categorized rows'' (Secret ''DB_CONNECTION'') ''DATABASE'' ''COLLECTION'',
         GetFromMongo (Secret ''DB_CONNECTION'') ''DATABASE'' ''COLLECTION'',
         GetAdvice ''history'' (Secret ''OPENAI_KEY'') (Secret ''DB_CONNECTION'')])
   \<and> exc_class (Exc ''TypeError'' ''quote_from_bytes() expected bytes'') \<noteq> ''GenerationError''
   \<and> attempts_made [] (snd (main_run happy_world (parsed_as (JDict [(''advice'', JStr '''')]))))
     = [curl_call '''' ''key'' ''15162341744'', curl_call '''' ''key'' ''15512259418'']"
  by (simp add: main_run_def run_pipeline_def perform_def happy_world_def encode_advice_def
      parsed_as_def TypeError_def quote_str_def happy_send attempts_made_def)

subsection \<open>C6: percent-decoding the encoded message gives the advice back\<close>

text \<open>
  C6. For every advice string, the message the pipeline's encoding step produces
  (\<^verbatim>\<open>urllib.parse.quote\<close> of the \<^verbatim>\<open>advice\<close> field of the generator's envelope) decodes,
  by percent-decoding, to the original advice exactly: the bytes that come out are the
  UTF-8 bytes of the advice text that went in.
\<close>

theorem percent_decoding_recovers_advice:
  assumes "loads generate_resp = Inr (JDict items)"
      and "map_of items ''advice'' = Some (JStr advice)"
  shows "encode_advice loads generate_resp = Inr (quote_str advice)
         \<and> unquote_to_bytes (quote_str advice) = advice"
  using assms by (simp add: encode_advice_def unquote_quote_str)

theorem percent_decoding_recovers_advice_witness:
  "(\<lambda>s. Inr (JDict [(''advice'', JStr ''Save 10% on rent/food, ok?'')])) ''envelope''
      = (Inr (JDict [(''advice'', JStr ''Save 10% on rent/food, ok?'')]) :: exc + json)
   \<and> map_of [(''advice'', JStr ''Save 10% on rent/food, ok?'')] ''advice''
      = Some (JStr ''Save 10% on rent/food, ok?'')
   \<and> encode_advice (\<lambda>s. Inr (JDict [(''advice'', JStr ''Save 10% on rent/food, ok?'')])) ''envelope''
      = Inr ''Save%2010%25%20on%20rent/food%2C%20ok%3F''
   \<and> unquote_to_bytes ''Save%2010%25%20on%20rent/food%2C%20ok%3F'' = ''Save 10% on rent/food, ok?''"
proof -
  have q: "quote_str ''Save 10% on rent/food, ok?'' = ''Save%2010%25%20on%20rent/food%2C%20ok%3F''"
    by code_simp
  show ?thesis
    using percent_decoding_recovers_advice
      [of "\<lambda>s. Inr (JDict [(''advice'', JStr ''Save 10% on rent/food, ok?'')])" "''envelope''"
          "[(''advice'', JStr ''Save 10% on rent/food, ok?'')]" "''Save 10% on rent/food, ok?''"]
    unfolding q by simp
qed

subsection \<open>C7: what a failed run shows its caller\<close>



subsection \<open>C8: the numbers \<^verbatim>\<open>send\<close> writes to\<close>

text \<open>
  C8. The claim is that the recipients are an argument of \<^verbatim>\<open>send\<close>. The module's own
  documentation says so too (\<^verbatim>\<open>mobile\<close>, a comma-separated string of numbers, and the
  example \<^verbatim>\<open>--mobile='+1234567890,+0987654321'\<close>), but the function takes the message and
  the secret only and writes to the two numbers of its list \<^verbatim>\<open>phone_numbers\<close>
  (\<open>send_attempts_fixed_numbers\<close> above, for every call). The theorem evaluates the call
  of the documentation's example: the attempts are for the two fixed numbers and none is
  for a number the caller named.
\<close>

theorem send_ignores_requested_recipients:
  "attempts_made [] (snd (send happy_world ''Your%20financial%20advice%20here''
       (Secret ''TEXTBELT_KEY'') []))
     = [curl_call ''Your%20financial%20advice%20here'' ''key'' ''15162341744'',
        curl_call ''Your%20financial%20advice%20here'' ''key'' ''15512259418'']
   \<and> curl_call ''Your%20financial%20advice%20here'' ''key'' ''+1234567890''
       \<notin> set (snd (send happy_world ''Your%20financial%20advice%20here''
                     (Secret ''TEXTBELT_KEY'') []))
   \<and> curl_call ''Your%20financial%20advice%20here'' ''key'' ''+0987654321''
       \<notin> set (snd (send happy_world ''Your%20financial%20advice%20here''
                     (Secret ''TEXTBELT_KEY'') []))"
  by (simp add: happy_send attempts_made_def) (simp add: curl_call_def curl_cmd_def)

subsection \<open>C9: an attempt succeeds exactly when its output contains the marker\<close>

text \<open>
  C9. Whatever the provider answers, \<^verbatim>\<open>send\<close> classifies the attempt for a number as
  successful if and only if the literal text \<^verbatim>\<open>success\<close> occurs somewhere in the standard
  output of the curl command: then the attempt yields that output and raises nothing, and
  otherwise it raises the \<^verbatim>\<open>RuntimeError\<close> that wraps the \<^verbatim>\<open>ValueError\<close>. The witness is
  the answer \<^verbatim>\<open>{"success": false}\<close>, which reports a failure and is taken for a delivery.
\<close>

theorem attempt_success_iff_marker:
  assumes "env h (curl_call encoded_message text_belt_key phone_number) = Inr result"
  shows "((\<exists>pre post. result = pre @ ''success'' @ post) \<longrightarrow>
            attempt env encoded_message text_belt_key phone_number h =
              (Inr result, h @ [curl_call encoded_message text_belt_key phone_number]))
       \<and> (\<not> (\<exists>pre post. result = pre @ ''success'' @ post) \<longrightarrow>
            attempt env encoded_message text_belt_key phone_number h =
              (Inl (RuntimeError (''Error sending message to '' @ phone_number @ '': ''
                     @ ''Failed to send message to '' @ phone_number @ '': '' @ result)),
               h @ [curl_call encoded_message text_belt_key phone_number]))"
proof -
  have marker: "(\<exists>pre post. result = pre @ ''success'' @ post) \<longleftrightarrow> py_in ''success'' result"
    by (rule py_in_iff [symmetric])
  show ?thesis
    unfolding marker using assms by (simp add: attempt_def perform_def ValueError_def)
qed

theorem attempt_success_iff_marker_witness:
  "(\<lambda>h c. Inr (''{'' @ dq @ ''success'' @ dq @ '': false}'')) []
       (curl_call ''hi'' ''key'' ''15162341744'')
      = (Inr (''{'' @ dq @ ''success'' @ dq @ '': false}'') :: exc + string)
   \<and> ''{'' @ dq @ ''success'' @ dq @ '': false}'' = (''{'' @ dq) @ ''success'' @ (dq @ '': false}'')
   \<and> attempt (\<lambda>h c. Inr (''{'' @ dq @ ''success'' @ dq @ '': false}'')) ''hi'' ''key''
         ''15162341744'' []
      = (Inr (''{'' @ dq @ ''success'' @ dq @ '': false}''), [curl_call ''hi'' ''key'' ''15162341744''])
   \<and> (\<lambda>h c. Inr ''Bad Gateway'') [] (curl_call ''hi'' ''key'' ''15162341744'')
      = (Inr ''Bad Gateway'' :: exc + string)
   \<and> \<not> py_in ''success'' ''Bad Gateway''
   \<and> attempt (\<lambda>h c. Inr ''Bad Gateway'') ''hi'' ''key'' ''15162341744'' []
      = (Inl (RuntimeError
           ''Error sending message to 15162341744: Failed to send message to 15162341744: Bad Gateway''),
         [curl_call ''hi'' ''key'' ''15162341744''])"
proof -
  have yes: "\<exists>pre post. ''{'' @ dq @ ''success'' @ dq @ '': false}'' = pre @ ''success'' @ post"
    by (rule exI[of _ "''{'' @ dq"], rule exI[of _ "dq @ '': false}''"]) simp
  have "\<not> py_in ''success'' ''Bad Gateway''"
    by simp
  then have no: "\<not> (\<exists>pre post. ''Bad Gateway'' = pre @ ''success'' @ post)"
    unfolding py_in_iff .
  have first: "attempt (\<lambda>h c. Inr (''{'' @ dq @ ''success'' @ dq @ '': false}'')) ''hi'' ''key''
         ''15162341744'' []
      = (Inr (''{'' @ dq @ ''success'' @ dq @ '': false}''), [curl_call ''hi'' ''key'' ''15162341744''])"
    using yes attempt_success_iff_marker
      [of "\<lambda>h c. Inr (''{'' @ dq @ ''success'' @ dq @ '': false}'')" "[]" "''hi''" "''key''"
          "''15162341744''" "''{'' @ dq @ ''success'' @ dq @ '': false}''"]
    by simp
  have second: "attempt (\<lambda>h c. Inr ''Bad Gateway'') ''hi'' ''key'' ''15162341744'' []
      = (Inl (RuntimeError
           ''Error sending message to 15162341744: Failed to send message to 15162341744: Bad Gateway''),
         [curl_call ''hi'' ''key'' ''15162341744''])"
    using no attempt_success_iff_marker
      [of "\<lambda>h c. Inr ''Bad Gateway''" "[]" "''hi''" "''key''" "''15162341744''" "''Bad Gateway''"]
    by simp
  from first second show ?thesis by simp
qed

subsection \<open>C10: what \<^verbatim>\<open>send\<close> returns\<close>

text \<open>
  C10. When the attempts for both numbers are classified as successful, \<^verbatim>\<open>send\<close> returns
  the raw output of the attempt for the last number of its list and nothing else: the
  output for the first number is absent from the value returned. \<^verbatim>\<open>run_pipeline\<close> returns
  what \<^verbatim>\<open>send\<close> returns, so whenever it returns a value, that value is the world's answer
  to the last call of the run, the attempt for the last number.
\<close>

theorem send_returns_last_response:
  assumes "env h (Plaintext textBelt) = Inr text_belt_key"
      and "env (h @ [Plaintext textBelt]) (curl_call encoded_message text_belt_key ''15162341744'')
             = Inr first_result"
      and "py_in ''success'' first_result"
      and "env (h @ [Plaintext textBelt, curl_call encoded_message text_belt_key ''15162341744''])
             (curl_call encoded_message text_belt_key ''15512259418'') = Inr last_result"
      and "py_in ''success'' last_result"
  shows "send env encoded_message textBelt h =
           (Inr last_result,
            h @ [Plaintext textBelt, curl_call encoded_message text_belt_key ''15162341744'',
                 curl_call encoded_message text_belt_key ''15512259418''])
         \<and> (run_pipeline env loads apiKey sheet connection hftoken openai textBelt database collection h0
               = (Inr r, h') \<longrightarrow>
            (\<exists>m key. last h' = curl_call m key (last phone_numbers)
                     \<and> env (butlast h') (last h') = Inr r))"
proof
  show "send env encoded_message textBelt h =
           (Inr last_result,
            h @ [Plaintext textBelt, curl_call encoded_message text_belt_key ''15162341744'',
                 curl_call encoded_message text_belt_key ''15512259418''])"
    using assms by (simp add: send_def send_to_def phone_numbers_def perform_def attempt_def)
next
  show "run_pipeline env loads apiKey sheet connection hftoken openai textBelt database collection h0
               = (Inr r, h') \<longrightarrow>
            (\<exists>m key. last h' = curl_call m key (last phone_numbers)
                     \<and> env (butlast h') (last h') = Inr r)"
  proof
    assume "run_pipeline env loads apiKey sheet connection hftoken openai textBelt database
              collection h0 = (Inr r, h')"
    then obtain m h6 where "send env m textBelt h6 = (Inr r, h')"
      by (auto simp: run_pipeline_def perform_def split: sum.splits)
    from send_Inr[OF this] obtain key where
      h': "h' = h6 @ [Plaintext textBelt, curl_call m key ''15162341744'',
                      curl_call m key ''15512259418'']"
      and r: "env (h6 @ [Plaintext textBelt, curl_call m key ''15162341744''])
                (curl_call m key ''15512259418'') = Inr r"
      by blast
    have "last h' = curl_call m key (last phone_numbers)"
      by (simp add: h' phone_numbers_def)
    moreover have "butlast h' = h6 @ [Plaintext textBelt, curl_call m key ''15162341744'']"
      by (simp add: h' butlast_append)
    ultimately show "\<exists>m key. last h' = curl_call m key (last phone_numbers)
                     \<and> env (butlast h') (last h') = Inr r"
      using r by (auto simp: phone_numbers_def)
  qed
qed

theorem send_returns_last_response_witness:
  "first_attempt_answers (Inr ''success: queued'') [] (Plaintext (Secret ''TEXTBELT_KEY'')) = Inr ''key''
   \<and> first_attempt_answers (Inr ''success: queued'') [Plaintext (Secret ''TEXTBELT_KEY'')]
        (curl_call ''hi'' ''key'' ''15162341744'') = Inr ''success: queued''
   \<and> py_in ''success'' ''success: queued''
   \<and> first_attempt_answers (Inr ''success: queued'')
        [Plaintext (Secret ''TEXTBELT_KEY''), curl_call ''hi'' ''key'' ''15162341744'']
        (curl_call ''hi'' ''key'' ''15512259418'') = Inr (''{'' @ dq @ ''success'' @ dq @ '': true}'')
   \<and> py_in ''success'' (''{'' @ dq @ ''success'' @ dq @ '': true}'')
   \<and> send (first_attempt_answers (Inr ''success: queued'')) ''hi'' (Secret ''TEXTBELT_KEY'') []
      = (Inr (''{'' @ dq @ ''success'' @ dq @ '': true}''),
         [Plaintext (Secret ''TEXTBELT_KEY''), curl_call ''hi'' ''key'' ''15162341744'',
          curl_call ''hi'' ''key'' ''15512259418''])
   \<and> fst (main_run happy_world (parsed_as (JDict [(''advice'', JStr ''Spend less'')])))
      = Inr (''{'' @ dq @ ''success'' @ dq @ '': true}'')
   \<and> (\<exists>m key. last (snd (main_run happy_world (parsed_as (JDict [(''advice'', JStr ''Spend less'')]))))
                 = curl_call m key (last phone_numbers)
        \<and> happy_world (butlast (snd (main_run happy_world
                 (parsed_as (JDict [(''advice'', JStr ''Spend less'')])))))
             (last (snd (main_run happy_world (parsed_as (JDict [(''advice'', JStr ''Spend less'')])))))
           = Inr (''{'' @ dq @ ''success'' @ dq @ '': true}''))"
proof -
  let ?w = "first_attempt_answers (Inr ''success: queued'')"
  have a1: "?w [] (Plaintext (Secret ''TEXTBELT_KEY'')) = Inr ''key''"
    by (simp add: first_attempt_answers_def)
  have a2: "?w [Plaintext (Secret ''TEXTBELT_KEY'')] (curl_call ''hi'' ''key'' ''15162341744'')
              = Inr ''success: queued''"
    by (simp add: first_attempt_answers_def)
  have a3: "py_in ''success'' ''success: queued''"
    by simp
  have a4: "?w [Plaintext (Secret ''TEXTBELT_KEY''), curl_call ''hi'' ''key'' ''15162341744'']
              (curl_call ''hi'' ''key'' ''15512259418'') = Inr (''{'' @ dq @ ''success'' @ dq @ '': true}'')"
    by (simp add: first_attempt_answers_def happy_curl_call)
  note a5 = marker_in_happy
  have run: "run_pipeline happy_world (parsed_as (JDict [(''advice'', JStr ''Spend less'')]))
               (Secret ''API_KEY'') (Secret ''SHEET_ID'') (Secret ''DB_CONNECTION'')
               (Secret ''HF_TOKEN'') (Secret ''OPENAI_KEY'') (Secret ''TEXTBELT_KEY'')
               ''DATABASE'' ''COLLECTION'' []
             = (Inr (''{'' @ dq @ ''success'' @ dq @ '': true}''),
                snd (main_run happy_world (parsed_as (JDict [(''advice'', JStr ''Spend less'')]))))"
    using happy_main_run by (simp add: main_run_def)
  from send_returns_last_response[where env = ?w and h = "[]" and textBelt = "Secret ''TEXTBELT_KEY''"
      and text_belt_key = "''key''" and encoded_message = "''hi''"
      and first_result = "''success: queued''"
      and last_result = "''{'' @ dq @ ''success'' @ dq @ '': true}''"] a1 a2 a3 a4 a5
  have s: "send ?w ''hi'' (Secret ''TEXTBELT_KEY'') []
      = (Inr (''{'' @ dq @ ''success'' @ dq @ '': true}''),
         [Plaintext (Secret ''TEXTBELT_KEY''), curl_call ''hi'' ''key'' ''15162341744'',
          curl_call ''hi'' ''key'' ''15512259418''])"
    by simp
  have k: "happy_world [] (Plaintext (Secret ''TEXTBELT_KEY'')) = Inr ''key''"
    by (simp add: happy_world_def)
  have b2: "happy_world ([] @ [Plaintext (Secret ''TEXTBELT_KEY'')]) (curl_call ''hi'' ''key'' ''15162341744'')
              = Inr (''{'' @ dq @ ''success'' @ dq @ '': true}'')"
    by (simp add: happy_world_def happy_curl_call)
  have b4: "happy_world ([] @ [Plaintext (Secret ''TEXTBELT_KEY''), curl_call ''hi'' ''key'' ''15162341744''])
              (curl_call ''hi'' ''key'' ''15512259418'') = Inr (''{'' @ dq @ ''success'' @ dq @ '': true}'')"
    by (simp add: happy_world_def happy_curl_call)
  from send_returns_last_response[where env = happy_world and h = "[]", OF k b2 a5 b4 a5,
      THEN conjunct2, rule_format, OF run]
  have p: "\<exists>m key. last (snd (main_run happy_world (parsed_as (JDict [(''advice'', JStr ''Spend less'')]))))
                 = curl_call m key (last phone_numbers)
        \<and> happy_world (butlast (snd (main_run happy_world
                 (parsed_as (JDict [(''advice'', JStr ''Spend less'')])))))
             (last (snd (main_run happy_world (parsed_as (JDict [(''advice'', JStr ''Spend less'')])))))
           = Inr (''{'' @ dq @ ''success'' @ dq @ '': true}'')" .
  show ?thesis
    using a1 a2 a3 a4 a5 s p happy_main_run by simp
qed

end
